theory Spec2Isabelle
  imports Complex_Main
begin

section \<open>pyrCRT.curveFitting: data model\<close>

text \<open>
  The module works on one-dimensional NumPy arrays of float64 values. An array is modelled as
  the list of the real numbers its elements stand for, and the float64 operations of the
  module round their results and raise on overflow, as written out below; so are indexing,
  slicing, raising, the order of evaluation and the calls made to the solver.
\<close>

type_synonym Array = "real list"

text \<open>\<^verbatim>\<open>FitParametersTuple = Tuple[Array, Array]\<close>: the fitted parameters and their standard
  deviations.\<close>

type_synonym FitParametersTuple = "Array \<times> Array"

subsection \<open>Exceptions and their messages\<close>

text \<open>
  A message is the sequence of pieces of the (f-)string that builds it: literal text, and one
  piece for every interpolated field of an f-string, holding the value that is formatted
  there. Text between braces in a string literal without the \<^verbatim>\<open>f\<close> prefix stays literal text.
\<close>

datatype msg_part =
    Lit string
  | IntVal int
  | IntListVal "int list"
  | RealListVal "real list"
  | TypeName string

type_synonym msg = "msg_part list"

text \<open>
  The exception classes the module raises, catches or lets through. \<open>OtherClass\<close> stands for
  any class that derives from none of the others.
\<close>

datatype exn_class =
    RuntimeError
  | TypeError
  | ValueError
  | IndexError
  | OptimizeWarning
  | RuntimeWarning
  | OtherClass string

text \<open>An exception: its class, its message and its cause (set by \<^verbatim>\<open>raise ... from err\<close>).\<close>

datatype exn = Exn exn_class msg "exn option"

fun exn_class_of :: "exn \<Rightarrow> exn_class" where
  "exn_class_of (Exn k m c) = k"

fun exn_msg_of :: "exn \<Rightarrow> msg" where
  "exn_msg_of (Exn k m c) = m"

text \<open>
  Line 17, \<^verbatim>\<open>filterwarnings("error")\<close>, runs when the module is imported: from then on every
  \<^verbatim>\<open>warnings.warn\<close> raises the warning as an exception instead of printing it.
\<close>

definition warn :: "exn_class \<Rightarrow> msg \<Rightarrow> exn + 'a" where
  "warn category m = Inl (Exn category m None)"

subsection \<open>NumPy primitives used by the module\<close>

text \<open>Indexing \<^verbatim>\<open>a[i]\<close>: a negative index counts from the end, an index out of range raises.\<close>

definition py_index :: "'a list \<Rightarrow> int \<Rightarrow> exn + 'a" where
  "py_index a i =
     (let n = int (length a); j = (if i < 0 then i + n else i)
      in if 0 \<le> j \<and> j < n then Inr (a ! nat j)
         else Inl (Exn IndexError [Lit ''index out of bounds''] None))"

text \<open>Slicing \<^verbatim>\<open>a[:k]\<close>: a negative \<open>k\<close> drops the last \<open>-k\<close> elements; never raises.\<close>

definition py_slice_to :: "'a list \<Rightarrow> int \<Rightarrow> 'a list" where
  "py_slice_to a k = (if 0 \<le> k then take (nat k) a else take (nat (int (length a) + k)) a)"

subsection \<open>float64 arithmetic\<close>

text \<open>
  A float64 value is modelled by the real number it stands for. An arithmetic operation
  computes the exact result; when that is too large in magnitude to round to a finite
  float64, NumPy warns of an overflow, which the module's filter raises; otherwise the result
  is the exact result rounded to the nearest float64, ties to even (IEEE 754 binary64: 53
  bits of precision, least exponent -1074). Underflow is silent, as NumPy ignores it by
  default. Infinities and NaN never arise as values: whatever would produce one raises first.

  \<open>normalise\<close> scales a magnitude by powers of two until it has 53 bits before the binary
  point (or the least exponent is reached); \<open>quantize\<close> then rounds it to an integer and
  scales back.
\<close>

function normalise :: "real \<Rightarrow> int \<Rightarrow> real \<times> int" where
  "normalise v e =
     (if 2 ^ 53 \<le> v then normalise (v / 2) (e + 1)
      else if v < 2 ^ 52 \<and> - 1074 < e then normalise (2 * v) (e - 1)
      else (v, e))"
  by pat_completeness auto
termination
  by (relation "measures [\<lambda>(v, e). if 2 ^ 53 \<le> v then nat \<lfloor>v\<rfloor> else 0,
                         \<lambda>(v, e). nat (e + 1074)]") (auto, linarith)

declare normalise.simps [simp del]

definition round_half_even :: "real \<Rightarrow> int" where
  "round_half_even v =
     (let f = \<lfloor>v\<rfloor>; d = v - of_int f
      in if d < 1 / 2 then f else if 1 / 2 < d then f + 1 else if even f then f else f + 1)"

definition quantize :: "real \<Rightarrow> real" where
  "quantize v = (case normalise v 0 of (m, e) \<Rightarrow> of_int (round_half_even m) * 2 powi e)"

definition round64 :: "real \<Rightarrow> real" where
  "round64 r = (if r = 0 then 0 else sgn r * quantize \<bar>r\<bar>)"

text \<open>The largest float64 is \<open>2^1024 - 2^971\<close>; an exact result rounds beyond it from
  \<open>2^1024 - 2^970\<close> on.\<close>

definition overflows64 :: "real \<Rightarrow> bool" where
  "overflows64 r = (2 ^ 1024 - 2 ^ 970 \<le> \<bar>r\<bar>)"


definition fl_result :: "string \<Rightarrow> real \<Rightarrow> exn + real" where
  "fl_result opname r =
     (if overflows64 r then warn RuntimeWarning [Lit ''overflow encountered in '', Lit opname]
      else Inr (round64 r))"

text \<open>
  Division and multiplication of NumPy float scalars. A zero divisor makes NumPy warn
  ("divide by zero encountered", or "invalid value encountered" for 0/0).
\<close>

definition np_divide :: "real \<Rightarrow> real \<Rightarrow> exn + real" where
  "np_divide a b =
     (if b = 0
      then (if a = 0 then warn RuntimeWarning [Lit ''invalid value encountered in scalar divide'']
            else warn RuntimeWarning [Lit ''divide by zero encountered in scalar divide''])
      else fl_result ''scalar divide'' (a / b))"

definition np_multiply :: "real \<Rightarrow> real \<Rightarrow> exn + real" where
  "np_multiply a b = fl_result ''scalar multiply'' (a * b)"

text \<open>
  An operation on a whole array (with a scalar, or with another array of the same length):
  one warning for the call if any element overflows, else the array of rounded results.
  \<open>np.exp\<close> is taken to be correctly rounded.
\<close>

definition fl_map :: "string \<Rightarrow> (real \<Rightarrow> real) \<Rightarrow> Array \<Rightarrow> exn + Array" where
  "fl_map opname f v =
     (if list_ex (\<lambda>t. overflows64 (f t)) v
      then warn RuntimeWarning [Lit ''overflow encountered in '', Lit opname]
      else Inr (map (\<lambda>t. round64 (f t)) v))"

definition fl_map2 ::
  "string \<Rightarrow> (real \<Rightarrow> real \<Rightarrow> real) \<Rightarrow> Array \<Rightarrow> Array \<Rightarrow> exn + Array" where
  "fl_map2 opname f v w =
     (if list_ex (\<lambda>(s, t). overflows64 (f s t)) (zip v w)
      then warn RuntimeWarning [Lit ''overflow encountered in '', Lit opname]
      else Inr (map (\<lambda>(s, t). round64 (f s t)) (zip v w)))"

text \<open>\<^verbatim>\<open>np.diag\<close> of a matrix given as its list of rows.\<close>

fun np_diag :: "real list list \<Rightarrow> real list" where
  "np_diag [] = []"
| "np_diag ([] # rows) = []"
| "np_diag ((d # row) # rows) = d # np_diag (map tl rows)"

text \<open>\<^verbatim>\<open>np.sqrt\<close> warns on a negative entry (RuntimeWarning, "invalid value encountered");
  the square root is correctly rounded and cannot overflow.\<close>

definition np_sqrt :: "real list \<Rightarrow> exn + real list" where
  "np_sqrt v =
     (if list_ex (\<lambda>a. a < 0) v then warn RuntimeWarning [Lit ''invalid value encountered in sqrt'']
      else Inr (map (\<lambda>a. round64 (sqrt a)) v))"

section \<open>The model functions\<close>

text \<open>\<^verbatim>\<open>return a * np.exp(b * x) + c\<close>: four array operations, each of which may overflow.\<close>

definition exponential :: "Array \<Rightarrow> real \<Rightarrow> real \<Rightarrow> real \<Rightarrow> exn + Array" where
  "exponential x a b c =
     (case fl_map ''multiply'' (\<lambda>t. b * t) x of Inl e \<Rightarrow> Inl e | Inr bx \<Rightarrow>
      case fl_map ''exp'' exp bx of Inl e \<Rightarrow> Inl e | Inr ex \<Rightarrow>
      case fl_map ''multiply'' (\<lambda>t. a * t) ex of Inl e \<Rightarrow> Inl e | Inr ax \<Rightarrow>
        fl_map ''add'' (\<lambda>t. t + c) ax)"

text \<open>
  \<^verbatim>\<open>return np.polynomial.Polynomial(list(coefs))(x)\<close>: the power series with the coefficients
  given lowest order first. NumPy refuses an empty coefficient list; the default domain and
  window leave \<open>x\<close> as it is; the value is computed by Horner's rule on the whole array:

  \<^verbatim>\<open>c0 = c[-1] + x*0
  for i in range(2, len(c) + 1):
      c0 = c[-i] + c0*x\<close>
\<close>

fun polyval_loop :: "Array \<Rightarrow> real list \<Rightarrow> Array \<Rightarrow> exn + Array" where
  "polyval_loop x [] c0 = Inr c0"
| "polyval_loop x (ci # cs) c0 =
     (case fl_map2 ''multiply'' (\<lambda>s t. s * t) c0 x of Inl e \<Rightarrow> Inl e | Inr c0x \<Rightarrow>
      case fl_map ''add'' (\<lambda>t. ci + t) c0x of Inl e \<Rightarrow> Inl e | Inr c0' \<Rightarrow>
        polyval_loop x cs c0')"

definition polynomial :: "Array \<Rightarrow> real list \<Rightarrow> exn + Array" where
  "polynomial x coefs =
     (if coefs = [] then Inl (Exn ValueError [Lit ''Coefficient array is empty''] None)
      else
        case fl_map ''multiply'' (\<lambda>t. t * 0) x of Inl e \<Rightarrow> Inl e | Inr x0 \<Rightarrow>
        case fl_map ''add'' (\<lambda>t. last coefs + t) x0 of Inl e \<Rightarrow> Inl e | Inr c0 \<Rightarrow>
          polyval_loop x (rev (butlast coefs)) c0)"

text \<open>\<^verbatim>\<open>return np.sqrt(np.diag(cov))\<close>\<close>

definition covToStdDev :: "real list list \<Rightarrow> exn + Array" where
  "covToStdDev cov = np_sqrt (np_diag cov)"

text \<open>
  \<^verbatim>\<open>return np.abs(exponential(x, *expParams) - polynomial(x, *polyParams))\<close>. Unpacking
  \<open>expParams\<close> into the three parameters of \<open>exponential\<close> raises TypeError when it does not
  hold exactly three values; the left operand is evaluated first; the subtraction may
  overflow.
\<close>

definition diffExpPoly :: "Array \<Rightarrow> Array \<Rightarrow> Array \<Rightarrow> exn + Array" where
  "diffExpPoly x expParams polyParams =
     (case expParams of
        [a, b, c] \<Rightarrow>
          (case exponential x a b c of Inl e \<Rightarrow> Inl e | Inr ev \<Rightarrow>
           case polynomial x polyParams of Inl e \<Rightarrow> Inl e | Inr pv \<Rightarrow>
           case fl_map2 ''subtract'' (\<lambda>s t. s - t) ev pv of Inl e \<Rightarrow> Inl e | Inr d \<Rightarrow>
             Inr (map abs d))
      | _ \<Rightarrow> Inl (Exn TypeError [Lit ''exponential() takes 4 positional arguments''] None))"

section \<open>The curve fitter\<close>

text \<open>
  \<^verbatim>\<open>scipy.optimize.curve_fit\<close> is outside the module. It is a parameter of the model: a
  function from the arguments of a call (\<open>f\<close>, \<open>xdata\<close>, \<open>ydata\<close>, \<open>p0\<close>, \<open>bounds\<close>) to what the
  call does: return the optimal parameters and their covariance matrix, raise an exception,
  or emit a warning. In \<open>bounds\<close>, \<open>None\<close> is an infinite bound.

  Every function that may call the solver returns, next to its result, the list of the
  solver calls it made, in order.
\<close>

datatype model = Exponential | Polynomial

datatype bounds = Bounds "real option list" "real option list" | Unbounded

record fit_call =
  cf_f :: model
  cf_xdata :: Array
  cf_ydata :: Array
  cf_p0 :: "real list"
  cf_bounds :: bounds

datatype cf_outcome = CFReturn Array "real list list" | CFRaise exn | CFWarn exn_class msg

type_synonym curve_fit = "fit_call \<Rightarrow> cf_outcome"

type_synonym 'a traced = "(exn + 'a) \<times> fit_call list"

text \<open>A warning of the solver is raised at once, by the module's filter.\<close>

definition run_curve_fit :: "curve_fit \<Rightarrow> fit_call \<Rightarrow> exn + (Array \<times> real list list)" where
  "run_curve_fit cf c =
     (case cf c of
        CFReturn popt pcov \<Rightarrow> Inr (popt, pcov)
      | CFRaise e \<Rightarrow> Inl e
      | CFWarn k m \<Rightarrow> warn k m)"

text \<open>
  The body of the \<^verbatim>\<open>try\<close> block of both fitting functions: the call of the solver, then
  \<open>covToStdDev\<close> on the covariance matrix.
\<close>

definition fit_attempt :: "curve_fit \<Rightarrow> fit_call \<Rightarrow> exn + FitParametersTuple" where
  "fit_attempt cf c =
     (case run_curve_fit cf c of
        Inl e \<Rightarrow> Inl e
      | Inr (params, cov) \<Rightarrow>
          (case covToStdDev cov of Inl e \<Rightarrow> Inl e | Inr stdDev \<Rightarrow> Inr (params, stdDev)))"

text \<open>The default initial guesses \<^verbatim>\<open>[1.0, -0.3, 0.0]\<close> and seven zeros; the literal
  \<^verbatim>\<open>-0.3\<close> denotes the float64 nearest to it.\<close>

definition default_exponential_p0 :: "real list" where
  "default_exponential_p0 = [1, round64 (- 3 / 10), 0]"

definition default_polynomial_p0 :: "real list" where
  "default_polynomial_p0 = [0, 0, 0, 0, 0, 0, 0]"

definition exponential_call :: "Array \<Rightarrow> Array \<Rightarrow> real list \<Rightarrow> fit_call" where
  "exponential_call x y p0 =
     \<lparr>cf_f = Exponential, cf_xdata = x, cf_ydata = y, cf_p0 = p0,
      cf_bounds = Bounds [Some 0, None, None] [None, Some 0, None]\<rparr>"

definition polynomial_call :: "Array \<Rightarrow> Array \<Rightarrow> real list \<Rightarrow> fit_call" where
  "polynomial_call x y p0 =
     \<lparr>cf_f = Polynomial, cf_xdata = x, cf_ydata = y, cf_p0 = p0, cf_bounds = Unbounded\<rparr>"

text \<open>
  \<^verbatim>\<open>except (RuntimeError, OptimizeWarning) as err:
      raise RuntimeError(f"Exponential fit failed with p0={p0}.") from err\<close>
  Any other exception leaves the function as it is.
\<close>

definition fitExponential ::
  "curve_fit \<Rightarrow> Array \<Rightarrow> Array \<Rightarrow> real list option \<Rightarrow> FitParametersTuple traced" where
  "fitExponential cf x y p0_arg =
     (let p0 = (case p0_arg of None \<Rightarrow> default_exponential_p0 | Some g \<Rightarrow> g);
          c = exponential_call x y p0
      in (case fit_attempt cf c of
            Inr r \<Rightarrow> Inr r
          | Inl err \<Rightarrow>
              if exn_class_of err = RuntimeError \<or> exn_class_of err = OptimizeWarning
              then Inl (Exn RuntimeError
                         [Lit ''Exponential fit failed with p0='', RealListVal p0, Lit ''.'']
                         (Some err))
              else Inl err,
          [c]))"

definition fitPolynomial ::
  "curve_fit \<Rightarrow> Array \<Rightarrow> Array \<Rightarrow> real list option \<Rightarrow> FitParametersTuple traced" where
  "fitPolynomial cf x y p0_arg =
     (let p0 = (case p0_arg of None \<Rightarrow> default_polynomial_p0 | Some g \<Rightarrow> g);
          c = polynomial_call x y p0
      in (case fit_attempt cf c of
            Inr r \<Rightarrow> Inr r
          | Inl err \<Rightarrow>
              if exn_class_of err = RuntimeError \<or> exn_class_of err = OptimizeWarning
              then Inl (Exn RuntimeError
                         [Lit ''Polynomial fit failed with p0='', RealListVal p0, Lit ''.'']
                         (Some err))
              else Inl err,
          [c]))"

section \<open>The divergence analyzer\<close>

subsection \<open>\<^verbatim>\<open>scipy.signal.find_peaks\<close> with no condition\<close>

text \<open>
  Called with the signal alone, \<open>find_peaks\<close> returns the local maxima found by comparing
  neighbours: the first sample after a rise starts a candidate, the scan looks ahead over the
  samples equal to it, and the candidate is a peak when the next different sample is lower;
  the peak is reported at the middle of the run of equal samples, rounded down. The first and
  the last sample are never peaks.

  \<^verbatim>\<open>i = 1; i_max = len(x) - 1
  while i < i_max:
      if x[i - 1] < x[i]:
          i_ahead = i + 1
          while i_ahead < i_max and x[i_ahead] == x[i]:
              i_ahead += 1
          if x[i_ahead] < x[i]:
              left_edge = i; right_edge = i_ahead - 1
              midpoints.append((left_edge + right_edge) // 2)
              i = i_ahead
      i += 1\<close>
\<close>

function look_ahead :: "real list \<Rightarrow> nat \<Rightarrow> nat \<Rightarrow> nat" where
  "look_ahead x i i_ahead =
     (if i_ahead < length x - 1 \<and> x ! i_ahead = x ! i then look_ahead x i (i_ahead + 1)
      else i_ahead)"
  by pat_completeness auto
termination
  by (relation "measure (\<lambda>(x, i, i_ahead). length x - 1 - i_ahead)") auto

declare look_ahead.simps [simp del]

lemma look_ahead_ge: "i_ahead \<le> look_ahead x i i_ahead"
proof (induction x i i_ahead rule: look_ahead.induct)
  case (1 x i i_ahead)
  then show ?case
    by (subst look_ahead.simps) (auto simp del: look_ahead.simps)
qed

function local_maxima_loop :: "real list \<Rightarrow> nat \<Rightarrow> nat list" where
  "local_maxima_loop x i =
     (if i < length x - 1 then
        (if x ! (i - 1) < x ! i then
           (let i_ahead = look_ahead x i (i + 1) in
            if x ! i_ahead < x ! i
            then (i + (i_ahead - 1)) div 2 # local_maxima_loop x (i_ahead + 1)
            else local_maxima_loop x (i + 1))
         else local_maxima_loop x (i + 1))
      else [])"
  by pat_completeness auto
termination
proof (relation "measure (\<lambda>(x, i). length x - i)", goal_cases)
  case 1
  show ?case by simp
next
  case (2 x i i_ahead)
  have "i + 1 \<le> look_ahead x i (i + 1)" by (rule look_ahead_ge)
  with 2 show ?case by simp
next
  case 3
  then show ?case by simp
next
  case 4
  then show ?case by simp
qed

declare local_maxima_loop.simps [simp del]

definition find_peaks :: "real list \<Rightarrow> nat list" where
  "find_peaks x = local_maxima_loop x 1"

subsection \<open>\<open>findMaxDivergencePeaks\<close>\<close>

text \<open>
  The function dispatches on how it is called: with both keywords \<open>expTuple\<close> and
  \<open>polyTuple\<close> (the fitted parameters are given), else with exactly one positional array \<open>y\<close>
  (both models are fitted on the whole series first), else it raises ValueError.

  \<^verbatim>\<open>sorted(maxIndexes, key=lambda x: diffArray[x], reverse=True)\<close> is a stable sort in
  descending order of the key: indices with equal keys keep their order.
\<close>

datatype peak_args = FittedArgs FitParametersTuple FitParametersTuple | RawArgs Array | OtherArgs

function findMaxDivergencePeaks :: "curve_fit \<Rightarrow> Array \<Rightarrow> peak_args \<Rightarrow> int list traced" where
  "findMaxDivergencePeaks cf x (FittedArgs expTuple polyTuple) =
     (case diffExpPoly x (fst expTuple) (fst polyTuple) of
        Inl e \<Rightarrow> (Inl e, [])
      | Inr diffArray \<Rightarrow>
          (let maxIndexes = map int (find_peaks diffArray);
               maxIndexesSorted = sort_key (\<lambda>i. - (diffArray ! nat i)) maxIndexes
           in (Inr maxIndexesSorted, [])))"
| "findMaxDivergencePeaks cf x (RawArgs y) =
     (case fitExponential cf x y None of
        (Inl e, t1) \<Rightarrow> (Inl e, t1)
      | (Inr expTuple, t1) \<Rightarrow>
          (case fitPolynomial cf x y None of
             (Inl e, t2) \<Rightarrow> (Inl e, t1 @ t2)
           | (Inr polyTuple, t2) \<Rightarrow>
               (case findMaxDivergencePeaks cf x (FittedArgs expTuple polyTuple) of
                  (r, t3) \<Rightarrow> (r, t1 @ t2 @ t3))))"
| "findMaxDivergencePeaks cf x OtherArgs =
     (Inl (Exn ValueError
        [Lit ''Usage: findMaxDivergencePeaks(x: array, expTuple=expTuple,polyTuple=polyTuple) or findMaxDivergencePeaks(x: array, y: array).Please refer to the documentation for more information.'']
        None), [])"
  by pat_completeness auto
termination
  by (relation "measure (\<lambda>(cf, x, a). case a of RawArgs y \<Rightarrow> 1 | _ \<Rightarrow> 0)") auto

section \<open>The rCRT estimator\<close>

text \<open>
  The argument \<open>maxDiv\<close> is inspected at run time: \<open>None\<close>, a list (of candidate indices, as
  the signature says), an \<open>int\<close>, or a value of any other type. Values of other types are
  represented by a few kinds (a float, a string, a NumPy integer, which is not an \<open>int\<close>, a
  tuple, an object of some other class); only the name of their type is used.
\<close>

datatype other_value = OFloat real | OStr string | ONumpyInt int | OTuple "int list" | OObject string

fun type_name :: "other_value \<Rightarrow> string" where
  "type_name (OFloat v) = ''float''"
| "type_name (OStr s) = ''str''"
| "type_name (ONumpyInt n) = ''numpy.int64''"
| "type_name (OTuple t) = ''tuple''"
| "type_name (OObject cls) = cls"

datatype maxDiv_arg = MDNone | MDList "int list" | MDInt int | MDOther other_value

text \<open>
  \<open>fitRCRT\<close> calls itself: once per candidate from the loop over a list, and once with the
  list of peaks when \<open>maxDiv\<close> is \<open>None\<close>. \<open>fitRCRT_loop\<close> is the \<^verbatim>\<open>for\<close> loop over the
  list (its first list argument is the whole list, for the message; the second what is left
  to try):

  \<^verbatim>\<open>for maxDivIndex in maxDivList:
      try:
          return fitRCRT(x, y, maxDiv=maxDivIndex, p0=p0)
      except RuntimeError:
          pass
  raise RuntimeError(
      f"rCRT fit failed on all maxDivIndexes ({maxDivList})," " with p0={p0}."
  )\<close>

  Only the first of the two adjacent string literals of the last message is an f-string.
  With \<open>maxDiv\<close> \<open>None\<close> the function ends with
  \<^verbatim>\<open>maxDiv = findMaxDivergencePeaks(x, y); return fitRCRT(x, y, maxDiv=maxDiv)\<close>.
\<close>

function fitRCRT ::
    "curve_fit \<Rightarrow> Array \<Rightarrow> Array \<Rightarrow> real list option \<Rightarrow> maxDiv_arg
      \<Rightarrow> (FitParametersTuple \<times> int) traced"
  and fitRCRT_loop ::
    "curve_fit \<Rightarrow> Array \<Rightarrow> Array \<Rightarrow> real list \<Rightarrow> int list \<Rightarrow> int list
      \<Rightarrow> (FitParametersTuple \<times> int) traced"
where
  "fitRCRT cf x y p0_arg maxDiv =
     (let p0 = (case p0_arg of None \<Rightarrow> default_exponential_p0 | Some g \<Rightarrow> g) in
      case maxDiv of
        MDList maxDivList \<Rightarrow> fitRCRT_loop cf x y p0 maxDivList maxDivList
      | MDInt maxDivIndex \<Rightarrow>
          (case fitExponential cf (py_slice_to x maxDivIndex) (py_slice_to y maxDivIndex) (Some p0) of
             (Inr r, t) \<Rightarrow> (Inr (r, maxDivIndex), t)
           | (Inl err, t) \<Rightarrow>
               (if exn_class_of err = RuntimeError
                then Inl (Exn RuntimeError
                      [Lit ''rCRT fit failed on maxDivIndex='', IntVal maxDivIndex,
                       Lit '' and p0='', RealListVal p0] (Some err))
                else Inl err, t))
      | MDOther v \<Rightarrow>
          (Inl (Exn TypeError
             [Lit ''Invalid type of '', TypeName (type_name v),
              Lit '' for maxDiv. Valid types: int, list of ints or None. Please refer to the documentation for usage instructions.'']
             None), [])
      | MDNone \<Rightarrow>
          (case findMaxDivergencePeaks cf x (RawArgs y) of
             (Inl e, t1) \<Rightarrow> (Inl e, t1)
           | (Inr peaks, t1) \<Rightarrow>
               (case fitRCRT cf x y None (MDList peaks) of (r, t2) \<Rightarrow> (r, t1 @ t2))))"
| "fitRCRT_loop cf x y p0 maxDivList [] =
     (Inl (Exn RuntimeError
        [Lit ''rCRT fit failed on all maxDivIndexes ('', IntListVal maxDivList,
         Lit ''), with p0={p0}.''] None), [])"
| "fitRCRT_loop cf x y p0 maxDivList (maxDivIndex # rest) =
     (case fitRCRT cf x y (Some p0) (MDInt maxDivIndex) of
        (Inr r, t1) \<Rightarrow> (Inr r, t1)
      | (Inl err, t1) \<Rightarrow>
          if exn_class_of err = RuntimeError
          then (case fitRCRT_loop cf x y p0 maxDivList rest of (r, t2) \<Rightarrow> (r, t1 @ t2))
          else (Inl err, t1))"
  by pat_completeness auto
termination
  by (relation "measures
       [(\<lambda>a. case a of Inl (cf, x, y, p, m) \<Rightarrow> (case m of MDNone \<Rightarrow> 1 | _ \<Rightarrow> 0) | Inr _ \<Rightarrow> 0),
        (\<lambda>a. case a of Inl (cf, x, y, p, m) \<Rightarrow> (case m of MDList l \<Rightarrow> 2 * length l + 2 | _ \<Rightarrow> 0)
                      | Inr (cf, x, y, p, ml, l) \<Rightarrow> 2 * length l + 1)]") auto

declare fitRCRT.simps [simp del]

text \<open>
  \<^verbatim>\<open>rCRT = -1 / inverseRCRT
  rCRTUncertainty = -2 * rCRT * (inverseRCRTStdDev / inverseRCRT)\<close>
  The product \<open>-2 * rCRT\<close> is computed first, then the quotient, then their product.
\<close>

definition rCRTFromParameters :: "FitParametersTuple \<Rightarrow> exn + (real \<times> real)" where
  "rCRTFromParameters rCRTTuple =
     (case rCRTTuple of (rCRTParams, rCRTStdDev) \<Rightarrow>
      case py_index rCRTParams 1 of Inl e \<Rightarrow> Inl e | Inr inverseRCRT \<Rightarrow>
      case py_index rCRTStdDev 1 of Inl e \<Rightarrow> Inl e | Inr inverseRCRTStdDev \<Rightarrow>
      case np_divide (- 1) inverseRCRT of Inl e \<Rightarrow> Inl e | Inr rCRT \<Rightarrow>
      case np_multiply (- 2) rCRT of Inl e \<Rightarrow> Inl e | Inr t \<Rightarrow>
      case np_divide inverseRCRTStdDev inverseRCRT of Inl e \<Rightarrow> Inl e | Inr q \<Rightarrow>
      case np_multiply t q of Inl e \<Rightarrow> Inl e | Inr rCRTUncertainty \<Rightarrow>
        Inr (rCRT, rCRTUncertainty))"


section \<open>Vocabulary of the properties\<close>

text \<open>An exponential fit result has one entry per parameter \<open>a\<close>, \<open>b\<close>, \<open>c\<close> in both vectors.\<close>

definition is_exp_result :: "FitParametersTuple \<Rightarrow> bool" where
  "is_exp_result t = (length (fst t) = 3 \<and> length (snd t) = 3)"

text \<open>The failure kinds, read off the exception class: a fit failure is a RuntimeError, an
  invalid argument a TypeError.\<close>

definition is_fit_failure :: "exn \<Rightarrow> bool" where
  "is_fit_failure e = (exn_class_of e = RuntimeError)"

definition is_invalid_argument :: "exn \<Rightarrow> bool" where
  "is_invalid_argument e = (exn_class_of e = TypeError)"

text \<open>The class and the message of a failure; \<open>None\<close> for a result.\<close>

definition failure_kind :: "exn + 'a \<Rightarrow> (exn_class \<times> msg) option" where
  "failure_kind r = (case r of Inl e \<Rightarrow> Some (exn_class_of e, exn_msg_of e) | Inr v \<Rightarrow> None)"

text \<open>The initial guess a fit uses: the caller's, or the default of the model.\<close>

definition explicit_p0 :: "real list option \<Rightarrow> real list" where
  "explicit_p0 p0_arg = (case p0_arg of None \<Rightarrow> default_exponential_p0 | Some g \<Rightarrow> g)"

definition explicit_poly_p0 :: "real list option \<Rightarrow> real list" where
  "explicit_poly_p0 p0_arg = (case p0_arg of None \<Rightarrow> default_polynomial_p0 | Some g \<Rightarrow> g)"

text \<open>The exponential fit on the series cut at a candidate index: its outcome, whether it is a
  fit failure, and the solver call it makes.\<close>

definition candidate_fit ::
  "curve_fit \<Rightarrow> Array \<Rightarrow> Array \<Rightarrow> real list \<Rightarrow> int \<Rightarrow> exn + FitParametersTuple" where
  "candidate_fit cf x y p0 idx =
     fst (fitExponential cf (py_slice_to x idx) (py_slice_to y idx) (Some p0))"

definition candidate_fails :: "curve_fit \<Rightarrow> Array \<Rightarrow> Array \<Rightarrow> real list \<Rightarrow> int \<Rightarrow> bool" where
  "candidate_fails cf x y p0 idx =
     (case candidate_fit cf x y p0 idx of Inl e \<Rightarrow> exn_class_of e = RuntimeError | Inr r \<Rightarrow> False)"

definition candidate_call :: "Array \<Rightarrow> Array \<Rightarrow> real list \<Rightarrow> int \<Rightarrow> fit_call" where
  "candidate_call x y p0 idx = exponential_call (py_slice_to x idx) (py_slice_to y idx) p0"

text \<open>
  A flat peak of a signal: a run \<open>l..r\<close> of equal samples, not touching either end of the
  signal, with a lower sample just before and just after it. A run of length one is an
  interior sample strictly greater than both neighbours.
\<close>

definition flat_peak :: "real list \<Rightarrow> nat \<Rightarrow> nat \<Rightarrow> bool" where
  "flat_peak d l r =
     (1 \<le> l \<and> l \<le> r \<and> r + 1 < length d \<and> d ! (l - 1) < d ! l
      \<and> list_all (\<lambda>k. d ! k = d ! l) [l..<r + 1] \<and> d ! (r + 1) < d ! l)"

definition flat_peak_midpoints :: "real list \<Rightarrow> nat set" where
  "flat_peak_midpoints d = {(l + r) div 2 | l r. flat_peak d l r}"

definition peaks_from :: "real list \<Rightarrow> nat \<Rightarrow> nat set" where
  "peaks_from x i = {(l + r) div 2 | l r. i \<le> l \<and> flat_peak x l r}"

text \<open>The specification's local maxima: the interior indices strictly greater than both
  immediate neighbours, in increasing order.\<close>

definition strict_interior_maxima :: "real list \<Rightarrow> nat list" where
  "strict_interior_maxima d =
     filter (\<lambda>i. d ! (i - 1) < d ! i \<and> d ! (i + 1) < d ! i) [1..<length d - 1]"

definition has_adjacent_equal :: "real list \<Rightarrow> bool" where
  "has_adjacent_equal d = list_ex (\<lambda>k. d ! k = d ! (k + 1)) [0..<length d - 1]"

subsection \<open>Sample solvers and series\<close>

text \<open>A solver that never converges, one whose covariance cannot be estimated, one that
  meets an overflow warning of NumPy, one that converges on ten samples only, and one that
  always returns the same parameters per model.\<close>

definition never_converges :: curve_fit where
  "never_converges c = CFRaise (Exn RuntimeError [Lit ''Optimal parameters not found''] None)"

definition warns_covariance :: curve_fit where
  "warns_covariance c =
     CFWarn OptimizeWarning [Lit ''Covariance of the parameters could not be estimated'']"

definition warns_overflow :: curve_fit where
  "warns_overflow c = CFWarn RuntimeWarning [Lit ''overflow encountered in exp'']"

definition converges_on_ten :: curve_fit where
  "converges_on_ten c =
     (if length (cf_xdata c) = 10 then CFReturn [2, - 1 / 2, 1] [[1, 0, 0], [0, 1, 0], [0, 0, 1]]
      else CFRaise (Exn RuntimeError [Lit ''Optimal parameters not found''] None))"

definition fixed_fits :: curve_fit where
  "fixed_fits c =
     (case cf_f c of
        Exponential \<Rightarrow> CFReturn [0, 0, 0] [[1, 0, 0], [0, 1, 0], [0, 0, 1]]
      | Polynomial \<Rightarrow> CFReturn [0, 2, - 1] [[1, 0, 0], [0, 1, 0], [0, 0, 1]])"

definition sample_x :: Array where
  "sample_x = map real [0..<15]"

definition sample_y :: Array where
  "sample_y = replicate 15 1"

section \<open>Properties of float64 rounding\<close>

lemmas round64_eval = round64_def quantize_def normalise.simps round_half_even_def power_int_minus

lemma round64_small [simp]:
  "round64 0 = 0" "round64 1 = 1" "round64 2 = 2" "round64 3 = 3" "round64 4 = 4"
  "round64 (1 / 2) = 1 / 2" "round64 (3 / 2) = 3 / 2" "round64 (3 / 4) = 3 / 4"
  "round64 (1 / 4) = 1 / 4" "round64 8 = 8" "round64 16 = 16"
  by (simp_all add: round64_eval)

lemma round64_minus [simp]: "round64 (- r) = - round64 r"
  by (simp add: round64_def)

lemma overflows64_minus [simp]: "overflows64 (- r) = overflows64 r"
  by (simp add: overflows64_def)

lemma not_overflows64_small: "\<bar>r\<bar> \<le> 2 ^ 60 \<Longrightarrow> \<not> overflows64 r"
proof -
  have "(2::real) ^ 60 < 2 ^ 1024 - 2 ^ 970" by simp
  then show "\<bar>r\<bar> \<le> 2 ^ 60 \<Longrightarrow> \<not> overflows64 r" unfolding overflows64_def by linarith
qed

lemma normalise_nonneg: "0 \<le> v \<Longrightarrow> 0 \<le> fst (normalise v e)"
proof (induction v e rule: normalise.induct)
  case (1 v e)
  show ?case
  proof (cases "2 ^ 53 \<le> v")
    case True
    with 1 show ?thesis by (subst normalise.simps) simp
  next
    case False
    show ?thesis
    proof (cases "v < 2 ^ 52 \<and> - 1074 < e")
      case True
      with False 1 show ?thesis by (subst normalise.simps) simp
    next
      case stop: False
      with False 1 show ?thesis by (subst normalise.simps) auto
    qed
  qed
qed

lemma round_half_even_nonneg: "0 \<le> v \<Longrightarrow> 0 \<le> round_half_even v"
  by (auto simp add: round_half_even_def Let_def)

lemma quantize_nonneg: "0 \<le> v \<Longrightarrow> 0 \<le> quantize v"
proof -
  assume v: "0 \<le> v"
  obtain m e where n: "normalise v 0 = (m, e)" by (cases "normalise v 0")
  with normalise_nonneg [OF v, of 0] have "0 \<le> m" by simp
  then have "0 \<le> round_half_even m" by (rule round_half_even_nonneg)
  moreover have "(0::real) < 2 powi e" by simp
  ultimately show "0 \<le> quantize v" using n by (simp add: quantize_def)
qed

lemma round64_nonneg: "0 \<le> r \<Longrightarrow> 0 \<le> round64 r"
  using quantize_nonneg [of "\<bar>r\<bar>"] by (simp add: round64_def sgn_if)

lemma round64_nonpos: "r \<le> 0 \<Longrightarrow> round64 r \<le> 0"
  using round64_nonneg [of "- r"] by simp

section \<open>Properties of the rCRT estimate\<close>

lemma py_index_1: "2 \<le> length a \<Longrightarrow> py_index a 1 = Inr (a ! 1)"
  by (simp add: py_index_def Let_def)

text \<open>The code's \<open>-2 * rCRT * (sigma_b / b)\<close> and the specification's
  \<open>2 * |rCRT| * (sigma_b / |b|)\<close> are the same float64 product.\<close>

lemma uncertainty_as_specified:
  assumes "b \<noteq> 0"
  shows "round64 (- 2 * round64 (- 1 / b)) * round64 (s / b)
       = round64 (2 * \<bar>round64 (- 1 / b)\<bar>) * round64 (s / \<bar>b\<bar>)"
proof (cases "b < 0")
  case True
  then have "0 \<le> - 1 / b" by (simp add: field_simps)
  then have r: "0 \<le> round64 (- 1 / b)" by (rule round64_nonneg)
  have "round64 (- 2 * round64 (- 1 / b)) = - round64 (2 * round64 (- 1 / b))"
    using round64_minus [of "2 * round64 (- 1 / b)"] by simp
  moreover have "round64 (s / b) = - round64 (s / \<bar>b\<bar>)"
    using True round64_minus [of "s / \<bar>b\<bar>"] by simp
  ultimately show ?thesis using r by simp
next
  case False
  with assms have pos: "0 < b" by simp
  then have "- 1 / b \<le> 0" by (simp add: field_simps)
  then have r: "round64 (- 1 / b) \<le> 0" by (rule round64_nonpos)
  then have "2 * \<bar>round64 (- 1 / b)\<bar> = - 2 * round64 (- 1 / b)" by simp
  with pos show ?thesis by simp
qed

text \<open>
  C1, as the code has it. For an exponential fit result whose decay rate \<open>b\<close> (second
  parameter) is not zero and whose standard deviation \<open>sigma_b\<close> is not negative, and for
  which none of the four float64 operations overflows, \<open>rCRTFromParameters\<close> returns
  \<open>rCRT = -1/b\<close> and the uncertainty \<open>2 * |rCRT| * (sigma_b / |b|)\<close>, every operation
  rounded to float64; when \<open>-1/b\<close> overflows it raises NumPy's overflow warning instead. On
  the parameters \<open>(a, -0.5, c)\<close> the rCRT is 2 and on \<open>b = -1\<close> it is 1, when the
  uncertainty does not overflow.
\<close>

theorem rCRTFromParameters_value:
  "(is_exp_result (p, s) \<and> p ! 1 \<noteq> 0 \<and> 0 \<le> s ! 1
      \<and> \<not> overflows64 (- 1 / p ! 1)
      \<and> \<not> overflows64 (- 2 * round64 (- 1 / p ! 1))
      \<and> \<not> overflows64 (s ! 1 / p ! 1)
      \<and> \<not> overflows64 (round64 (- 2 * round64 (- 1 / p ! 1)) * round64 (s ! 1 / p ! 1)) \<longrightarrow>
      rCRTFromParameters (p, s) =
        Inr (round64 (- 1 / p ! 1),
             round64 (round64 (2 * \<bar>round64 (- 1 / p ! 1)\<bar>) * round64 (s ! 1 / \<bar>p ! 1\<bar>))))
   \<and> (is_exp_result (p, s) \<and> p ! 1 \<noteq> 0 \<and> overflows64 (- 1 / p ! 1) \<longrightarrow>
      rCRTFromParameters (p, s) =
        Inl (Exn RuntimeWarning [Lit ''overflow encountered in '', Lit ''scalar divide''] None))
   \<and> (length s = 3 \<and> \<not> overflows64 (s ! 1 / (- 1 / 2))
        \<and> \<not> overflows64 (- 4 * round64 (s ! 1 / (- 1 / 2))) \<longrightarrow>
      rCRTFromParameters ([a, - 1 / 2, c], s) = Inr (2, round64 (- 4 * round64 (s ! 1 / (- 1 / 2)))))
   \<and> (length s = 3 \<and> \<not> overflows64 (s ! 1 / (- 1))
        \<and> \<not> overflows64 (- 2 * round64 (s ! 1 / (- 1))) \<longrightarrow>
      rCRTFromParameters ([a, - 1, c], s) = Inr (1, round64 (- 2 * round64 (s ! 1 / (- 1)))))"
proof (intro conjI impI)
  assume h: "is_exp_result (p, s) \<and> p ! 1 \<noteq> 0 \<and> 0 \<le> s ! 1
      \<and> \<not> overflows64 (- 1 / p ! 1)
      \<and> \<not> overflows64 (- 2 * round64 (- 1 / p ! 1))
      \<and> \<not> overflows64 (s ! 1 / p ! 1)
      \<and> \<not> overflows64 (round64 (- 2 * round64 (- 1 / p ! 1)) * round64 (s ! 1 / p ! 1))"
  then have ip: "py_index p 1 = Inr (p ! 1)" and isd: "py_index s 1 = Inr (s ! 1)"
    by (simp_all add: is_exp_result_def py_index_1)
  from h have nz: "p ! 1 \<noteq> 0" by blast
  have "rCRTFromParameters (p, s) =
      Inr (round64 (- 1 / p ! 1),
           round64 (round64 (- 2 * round64 (- 1 / p ! 1)) * round64 (s ! 1 / p ! 1)))"
    using h ip isd
    by (simp add: rCRTFromParameters_def np_divide_def np_multiply_def fl_result_def)
  then show "rCRTFromParameters (p, s) =
        Inr (round64 (- 1 / p ! 1),
             round64 (round64 (2 * \<bar>round64 (- 1 / p ! 1)\<bar>) * round64 (s ! 1 / \<bar>p ! 1\<bar>)))"
    unfolding uncertainty_as_specified [OF nz] .
next
  assume h: "is_exp_result (p, s) \<and> p ! 1 \<noteq> 0 \<and> overflows64 (- 1 / p ! 1)"
  then have ip: "py_index p 1 = Inr (p ! 1)" and isd: "py_index s 1 = Inr (s ! 1)"
    by (simp_all add: is_exp_result_def py_index_1)
  with h show "rCRTFromParameters (p, s) =
        Inl (Exn RuntimeWarning [Lit ''overflow encountered in '', Lit ''scalar divide''] None)"
    by (simp add: rCRTFromParameters_def np_divide_def fl_result_def warn_def)
next
  assume h: "length s = 3 \<and> \<not> overflows64 (s ! 1 / (- 1 / 2))
        \<and> \<not> overflows64 (- 4 * round64 (s ! 1 / (- 1 / 2)))"
  then have isd: "py_index s 1 = Inr (s ! 1)" by (simp add: py_index_1)
  have small: "\<not> overflows64 2" "\<not> overflows64 4"
    by (simp_all add: not_overflows64_small)
  from h isd small show "rCRTFromParameters ([a, - 1 / 2, c], s) =
      Inr (2, round64 (- 4 * round64 (s ! 1 / (- 1 / 2))))"
    by (simp add: rCRTFromParameters_def np_divide_def np_multiply_def fl_result_def py_index_1)
next
  assume h: "length s = 3 \<and> \<not> overflows64 (s ! 1 / (- 1))
        \<and> \<not> overflows64 (- 2 * round64 (s ! 1 / (- 1)))"
  then have isd: "py_index s 1 = Inr (s ! 1)" by (simp add: py_index_1)
  have small: "\<not> overflows64 1" "\<not> overflows64 2"
    by (simp_all add: not_overflows64_small)
  from h isd small show "rCRTFromParameters ([a, - 1, c], s) =
      Inr (1, round64 (- 2 * round64 (s ! 1 / (- 1))))"
    by (simp add: rCRTFromParameters_def np_divide_def np_multiply_def fl_result_def py_index_1)
qed

theorem rCRTFromParameters_value_witness:
  "is_exp_result ([1, - 1 / 4, 0], [1 / 2, 1 / 2, 1 / 2])
   \<and> rCRTFromParameters ([1, - 1 / 4, 0], [1 / 2, 1 / 2, 1 / 2]) = Inr (4, 16)
   \<and> rCRTFromParameters ([1, - 1 / 2, 0], [0, 0, 0]) = Inr (2, 0)
   \<and> rCRTFromParameters ([1, - 1, 0], [0, 0, 0]) = Inr (1, 0)"
  using rCRTFromParameters_value [of "[1, - 1 / 4, 0]" "[1 / 2, 1 / 2, 1 / 2]" 1 0]
    rCRTFromParameters_value [of "[1, - 1 / 4, 0]" "[0, 0, 0]" 1 0]
  by (simp add: is_exp_result_def not_overflows64_small)

text \<open>
  C1, as stated, fails for a nonzero decay rate so small that \<open>-1/b\<close> overflows: with
  \<open>b = -2^-1074\<close>, the float64 nearest to zero (about \<open>-5e-324\<close>), the function raises
  NumPy's overflow warning and returns nothing.
\<close>

theorem rCRTFromParameters_overflow_counterexample:
  "is_exp_result ([1, - (1 / 2 ^ 1074), 0], [0, 0, 0])
   \<and> - (1 / 2 ^ 1074) \<noteq> (0::real)
   \<and> rCRTFromParameters ([1, - (1 / 2 ^ 1074), 0], [0, 0, 0]) =
       Inl (Exn RuntimeWarning [Lit ''overflow encountered in '', Lit ''scalar divide''] None)"
  by (simp add: is_exp_result_def rCRTFromParameters_def py_index_1 np_divide_def fl_result_def
      overflows64_def warn_def)

text \<open>
  C6. For an exponential fit result whose decay rate \<open>b\<close> is exactly zero,
  \<open>rCRTFromParameters\<close> raises a division condition (NumPy's divide-by-zero warning, raised
  by the module's warning filter), which is neither a fit failure nor an invalid-argument
  condition.
\<close>

theorem rCRTFromParameters_zero_rate:
  "is_exp_result (p, s) \<Longrightarrow> p ! 1 = 0 \<Longrightarrow>
     rCRTFromParameters (p, s) =
       Inl (Exn RuntimeWarning [Lit ''divide by zero encountered in scalar divide''] None)
     \<and> (\<forall>e. rCRTFromParameters (p, s) = Inl e \<longrightarrow> \<not> is_fit_failure e \<and> \<not> is_invalid_argument e)"
  by (simp add: rCRTFromParameters_def np_divide_def warn_def py_index_1 is_exp_result_def
      is_fit_failure_def is_invalid_argument_def)

theorem rCRTFromParameters_zero_rate_witness:
  "is_exp_result ([1, 0, 0], [1 / 10, 1 / 20, 1 / 10]) \<and> [1, 0, 0 :: real] ! 1 = 0
   \<and> rCRTFromParameters ([1, 0, 0], [1 / 10, 1 / 20, 1 / 10]) =
       Inl (Exn RuntimeWarning [Lit ''divide by zero encountered in scalar divide''] None)"
  using rCRTFromParameters_zero_rate [of "[1, 0, 0]" "[1 / 10, 1 / 20, 1 / 10]"]
  by (simp add: is_exp_result_def)




section \<open>Properties of the curve fitter\<close>

lemma fit_attempt_raise: "cf c = CFRaise e \<Longrightarrow> fit_attempt cf c = Inl e"
  by (simp add: fit_attempt_def run_curve_fit_def)

lemma fit_attempt_warn: "cf c = CFWarn k w \<Longrightarrow> fit_attempt cf c = Inl (Exn k w None)"
  by (simp add: fit_attempt_def run_curve_fit_def warn_def)

text \<open>
  C4, as the code has it. In a fit of either model, a warning of category \<open>OptimizeWarning\<close>
  raised by the optimizer gives the same failure as non-convergence (the solver's
  \<open>RuntimeError\<close>): a \<open>RuntimeError\<close> whose message carries the initial guess of the attempt.
  A warning of any other category is raised as it is, an exception of its own class, without
  the initial guess. In no case is a fit result returned.
\<close>

theorem optimizer_warning_is_fit_failure:
  "(cf (exponential_call x y (explicit_p0 p0)) = CFWarn OptimizeWarning w
      \<or> cf (exponential_call x y (explicit_p0 p0)) = CFRaise (Exn RuntimeError m c) \<longrightarrow>
        failure_kind (fst (fitExponential cf x y p0)) =
          Some (RuntimeError,
                [Lit ''Exponential fit failed with p0='', RealListVal (explicit_p0 p0), Lit ''.'']))
   \<and> (cf (polynomial_call x y (explicit_poly_p0 p0)) = CFWarn OptimizeWarning w
      \<or> cf (polynomial_call x y (explicit_poly_p0 p0)) = CFRaise (Exn RuntimeError m c) \<longrightarrow>
        failure_kind (fst (fitPolynomial cf x y p0)) =
          Some (RuntimeError,
                [Lit ''Polynomial fit failed with p0='', RealListVal (explicit_poly_p0 p0), Lit ''.'']))
   \<and> (cf (exponential_call x y (explicit_p0 p0)) = CFWarn k w
        \<and> k \<noteq> OptimizeWarning \<and> k \<noteq> RuntimeError \<longrightarrow>
        fst (fitExponential cf x y p0) = Inl (Exn k w None))
   \<and> (cf (polynomial_call x y (explicit_poly_p0 p0)) = CFWarn k w
        \<and> k \<noteq> OptimizeWarning \<and> k \<noteq> RuntimeError \<longrightarrow>
        fst (fitPolynomial cf x y p0) = Inl (Exn k w None))"
proof (intro conjI impI)
  assume "cf (exponential_call x y (explicit_p0 p0)) = CFWarn OptimizeWarning w
      \<or> cf (exponential_call x y (explicit_p0 p0)) = CFRaise (Exn RuntimeError m c)"
  then have "fit_attempt cf (exponential_call x y (explicit_p0 p0)) = Inl (Exn OptimizeWarning w None)
      \<or> fit_attempt cf (exponential_call x y (explicit_p0 p0)) = Inl (Exn RuntimeError m c)"
    by (auto simp add: fit_attempt_raise fit_attempt_warn)
  then show "failure_kind (fst (fitExponential cf x y p0)) =
          Some (RuntimeError,
                [Lit ''Exponential fit failed with p0='', RealListVal (explicit_p0 p0), Lit ''.''])"
    unfolding explicit_p0_def by (auto simp add: fitExponential_def failure_kind_def Let_def)
next
  assume "cf (polynomial_call x y (explicit_poly_p0 p0)) = CFWarn OptimizeWarning w
      \<or> cf (polynomial_call x y (explicit_poly_p0 p0)) = CFRaise (Exn RuntimeError m c)"
  then have "fit_attempt cf (polynomial_call x y (explicit_poly_p0 p0)) = Inl (Exn OptimizeWarning w None)
      \<or> fit_attempt cf (polynomial_call x y (explicit_poly_p0 p0)) = Inl (Exn RuntimeError m c)"
    by (auto simp add: fit_attempt_raise fit_attempt_warn)
  then show "failure_kind (fst (fitPolynomial cf x y p0)) =
          Some (RuntimeError,
                [Lit ''Polynomial fit failed with p0='', RealListVal (explicit_poly_p0 p0), Lit ''.''])"
    unfolding explicit_poly_p0_def by (auto simp add: fitPolynomial_def failure_kind_def Let_def)
next
  assume h: "cf (exponential_call x y (explicit_p0 p0)) = CFWarn k w
      \<and> k \<noteq> OptimizeWarning \<and> k \<noteq> RuntimeError"
  then have "fit_attempt cf (exponential_call x y (explicit_p0 p0)) = Inl (Exn k w None)"
    by (simp add: fit_attempt_warn)
  with h show "fst (fitExponential cf x y p0) = Inl (Exn k w None)"
    unfolding explicit_p0_def by (simp add: fitExponential_def Let_def)
next
  assume h: "cf (polynomial_call x y (explicit_poly_p0 p0)) = CFWarn k w
      \<and> k \<noteq> OptimizeWarning \<and> k \<noteq> RuntimeError"
  then have "fit_attempt cf (polynomial_call x y (explicit_poly_p0 p0)) = Inl (Exn k w None)"
    by (simp add: fit_attempt_warn)
  with h show "fst (fitPolynomial cf x y p0) = Inl (Exn k w None)"
    unfolding explicit_poly_p0_def by (simp add: fitPolynomial_def Let_def)
qed

theorem optimizer_warning_is_fit_failure_witness:
  "warns_covariance (exponential_call sample_x sample_y (explicit_p0 None)) =
     CFWarn OptimizeWarning [Lit ''Covariance of the parameters could not be estimated'']
   \<and> failure_kind (fst (fitExponential warns_covariance sample_x sample_y None)) =
       Some (RuntimeError,
             [Lit ''Exponential fit failed with p0='', RealListVal default_exponential_p0, Lit ''.''])
   \<and> failure_kind (fst (fitPolynomial warns_covariance sample_x sample_y (Some [0, 0]))) =
       Some (RuntimeError, [Lit ''Polynomial fit failed with p0='', RealListVal [0, 0], Lit ''.''])
   \<and> fst (fitExponential warns_overflow sample_x sample_y None) =
       Inl (Exn RuntimeWarning [Lit ''overflow encountered in exp''] None)"
  using optimizer_warning_is_fit_failure [of warns_covariance sample_x sample_y None
      "[Lit ''Covariance of the parameters could not be estimated'']" "[]" None OptimizeWarning]
    optimizer_warning_is_fit_failure [of warns_covariance sample_x sample_y "Some [0, 0]"
      "[Lit ''Covariance of the parameters could not be estimated'']" "[]" None OptimizeWarning]
    optimizer_warning_is_fit_failure [of warns_overflow sample_x sample_y None
      "[Lit ''overflow encountered in exp'']" "[]" None RuntimeWarning]
  by (simp add: warns_covariance_def warns_overflow_def explicit_p0_def explicit_poly_p0_def)

text \<open>
  C4, as stated, fails for a warning that is not an \<open>OptimizeWarning\<close>: when the solver
  raises NumPy's overflow \<open>RuntimeWarning\<close> (from an evaluation of the model function, say),
  the fit raises that \<open>RuntimeWarning\<close>, which is not the failure of non-convergence and
  carries no initial guess.
\<close>

theorem optimizer_warning_other_category_counterexample:
  "failure_kind (fst (fitExponential warns_overflow sample_x sample_y None)) =
     Some (RuntimeWarning, [Lit ''overflow encountered in exp''])
   \<and> failure_kind (fst (fitExponential never_converges sample_x sample_y None)) =
     Some (RuntimeError,
           [Lit ''Exponential fit failed with p0='', RealListVal default_exponential_p0, Lit ''.''])
   \<and> failure_kind (fst (fitExponential warns_overflow sample_x sample_y None))
       \<noteq> failure_kind (fst (fitExponential never_converges sample_x sample_y None))"
  by (simp add: fitExponential_def fit_attempt_raise fit_attempt_warn warns_overflow_def
      never_converges_def failure_kind_def Let_def)

section \<open>Properties of the rCRT estimator\<close>

lemma fitExponential_trace:
  "snd (fitExponential cf x y p0_arg) = [exponential_call x y (explicit_p0 p0_arg)]"
  by (simp add: fitExponential_def explicit_p0_def Let_def)

lemma fitPolynomial_trace:
  "snd (fitPolynomial cf x y p0_arg) =
     [polynomial_call x y (case p0_arg of None \<Rightarrow> default_polynomial_p0 | Some g \<Rightarrow> g)]"
  by (simp add: fitPolynomial_def Let_def)

lemma fitRCRT_MDList:
  "fitRCRT cf x y p0_arg (MDList l) = fitRCRT_loop cf x y (explicit_p0 p0_arg) l l"
  by (simp add: fitRCRT.simps explicit_p0_def)

lemma fitRCRT_MDOther:
  "fitRCRT cf x y p0_arg (MDOther v) =
     (Inl (Exn TypeError
             [Lit ''Invalid type of '', TypeName (type_name v),
              Lit '' for maxDiv. Valid types: int, list of ints or None. Please refer to the documentation for usage instructions.'']
             None), [])"
  by (simp add: fitRCRT.simps)

lemma fitRCRT_MDNone:
  "fitRCRT cf x y p0_arg MDNone =
     (case findMaxDivergencePeaks cf x (RawArgs y) of
        (Inl e, t1) \<Rightarrow> (Inl e, t1)
      | (Inr peaks, t1) \<Rightarrow>
          (case fitRCRT cf x y None (MDList peaks) of (r, t2) \<Rightarrow> (r, t1 @ t2)))"
  by (simp add: fitRCRT.simps)

lemma fitRCRT_MDInt:
  "fitRCRT cf x y p0_arg (MDInt idx) =
     (case fitExponential cf (py_slice_to x idx) (py_slice_to y idx) (Some (explicit_p0 p0_arg)) of
        (Inr r, t) \<Rightarrow> (Inr (r, idx), t)
      | (Inl err, t) \<Rightarrow>
          (if exn_class_of err = RuntimeError
           then Inl (Exn RuntimeError
                 [Lit ''rCRT fit failed on maxDivIndex='', IntVal idx,
                  Lit '' and p0='', RealListVal (explicit_p0 p0_arg)] (Some err))
           else Inl err, t))"
  unfolding fitRCRT.simps [of cf x y p0_arg "MDInt idx"] explicit_p0_def Let_def by simp

lemma fitRCRT_MDInt_trace:
  "snd (fitRCRT cf x y p0_arg (MDInt idx)) = [candidate_call x y (explicit_p0 p0_arg) idx]"
proof -
  obtain r t where rt: "fitExponential cf (py_slice_to x idx) (py_slice_to y idx)
      (Some (explicit_p0 p0_arg)) = (r, t)"
    by (cases "fitExponential cf (py_slice_to x idx) (py_slice_to y idx) (Some (explicit_p0 p0_arg))")
  with fitExponential_trace [of cf "py_slice_to x idx" "py_slice_to y idx" "Some (explicit_p0 p0_arg)"]
  have t: "t = [candidate_call x y (explicit_p0 p0_arg) idx]"
    by (simp add: candidate_call_def explicit_p0_def)
  show ?thesis
    using rt t unfolding fitRCRT.simps [of cf x y p0_arg "MDInt idx"]
    by (cases r) (simp_all add: explicit_p0_def Let_def)
qed


lemma fitRCRT_MDInt_failure:
  assumes "candidate_fails cf x y (explicit_p0 p0_arg) idx"
  shows "\<exists>err. candidate_fit cf x y (explicit_p0 p0_arg) idx = Inl err \<and>
     fst (fitRCRT cf x y p0_arg (MDInt idx)) =
       Inl (Exn RuntimeError
              [Lit ''rCRT fit failed on maxDivIndex='', IntVal idx, Lit '' and p0='',
               RealListVal (explicit_p0 p0_arg)] (Some err))"
proof -
  from assms obtain err where e: "candidate_fit cf x y (explicit_p0 p0_arg) idx = Inl err"
    and k: "exn_class_of err = RuntimeError"
    unfolding candidate_fails_def by (auto split: sum.splits)
  then obtain t where "fitExponential cf (py_slice_to x idx) (py_slice_to y idx)
      (Some (explicit_p0 p0_arg)) = (Inl err, t)"
    unfolding candidate_fit_def
    by (cases "fitExponential cf (py_slice_to x idx) (py_slice_to y idx) (Some (explicit_p0 p0_arg))") simp
  then have "fst (fitRCRT cf x y p0_arg (MDInt idx)) =
       Inl (Exn RuntimeError
              [Lit ''rCRT fit failed on maxDivIndex='', IntVal idx, Lit '' and p0='',
               RealListVal (explicit_p0 p0_arg)] (Some err))"
    using k unfolding fitRCRT.simps [of cf x y p0_arg "MDInt idx"]
    by (simp add: explicit_p0_def)
  with e show ?thesis by blast
qed

lemma explicit_p0_Some [simp]: "explicit_p0 (Some g) = g"
  by (simp add: explicit_p0_def)


lemma fitRCRT_loop_all_fail:
  assumes "list_all (candidate_fails cf x y g) l"
  shows "fitRCRT_loop cf x y g ml l =
           (Inl (Exn RuntimeError
                  [Lit ''rCRT fit failed on all maxDivIndexes ('', IntListVal ml,
                   Lit ''), with p0={p0}.''] None),
            map (candidate_call x y g) l)"
  using assms
proof (induction l)
  case Nil
  then show ?case by simp
next
  case (Cons i l)
  then have f: "candidate_fails cf x y g i" and rest: "list_all (candidate_fails cf x y g) l"
    by simp_all
  from fitRCRT_MDInt_failure [of cf x y "Some g" i] f
  obtain e where "fst (fitRCRT cf x y (Some g) (MDInt i)) = Inl e" and "exn_class_of e = RuntimeError"
    by auto
  moreover have "snd (fitRCRT cf x y (Some g) (MDInt i)) = [candidate_call x y g i]"
    using fitRCRT_MDInt_trace [of cf x y "Some g" i] by simp
  ultimately have "fitRCRT cf x y (Some g) (MDInt i) = (Inl e, [candidate_call x y g i])"
    and "exn_class_of e = RuntimeError"
    by (simp_all add: prod_eq_iff)
  then show ?case using Cons.IH [OF rest] by simp
qed

lemma fitRCRT_loop_trace:
  "list_all (\<lambda>c. cf_f c = Exponential \<and> cf_p0 c = g) (snd (fitRCRT_loop cf x y g ml l))"
proof (induction l)
  case Nil
  then show ?case by simp
next
  case (Cons i l)
  obtain r t where rt: "fitRCRT cf x y (Some g) (MDInt i) = (r, t)"
    by (cases "fitRCRT cf x y (Some g) (MDInt i)")
  with fitRCRT_MDInt_trace [of cf x y "Some g" i] have t: "t = [candidate_call x y g i]"
    by simp
  obtain r' t' where rt': "fitRCRT_loop cf x y g ml l = (r', t')"
    by (cases "fitRCRT_loop cf x y g ml l")
  with Cons.IH have "list_all (\<lambda>c. cf_f c = Exponential \<and> cf_p0 c = g) t'" by simp
  then show ?case using rt t rt'
    by (cases r) (simp_all add: candidate_call_def exponential_call_def)
qed

lemma never_converges_fails: "candidate_fails never_converges x y g idx"
  by (simp add: candidate_fails_def candidate_fit_def fitExponential_def fit_attempt_raise
      never_converges_def Let_def)



text \<open>
  C5. When the exponential fit fails on every candidate of the list, \<open>fitRCRT\<close> raises a
  failure whose message names the whole list of indices, but not the initial guess: the part
  of the message that should hold it is the literal text \<^verbatim>\<open>{p0}\<close>. Here on the candidates 5
  and 10 with the guess \<open>[2, -1, 0]\<close> and a solver that never converges.
\<close>

theorem fitRCRT_all_fail_message:
  "failure_kind (fst (fitRCRT never_converges sample_x sample_y (Some [2, - 1, 0]) (MDList [5, 10])))
     = Some (RuntimeError,
             [Lit ''rCRT fit failed on all maxDivIndexes ('', IntListVal [5, 10],
              Lit ''), with p0={p0}.''])
   \<and> RealListVal [2, - 1, 0] \<notin> set
       [Lit ''rCRT fit failed on all maxDivIndexes ('', IntListVal [5, 10],
        Lit ''), with p0={p0}.'']"
proof -
  have "list_all (candidate_fails never_converges sample_x sample_y [2, - 1, 0]) [5, 10]"
    by (simp add: never_converges_fails)
  then have "fitRCRT_loop never_converges sample_x sample_y [2, - 1, 0] [5, 10] [5, 10] =
      (Inl (Exn RuntimeError
             [Lit ''rCRT fit failed on all maxDivIndexes ('', IntListVal [5, 10],
              Lit ''), with p0={p0}.''] None),
       map (candidate_call sample_x sample_y [2, - 1, 0]) [5, 10])"
    by (rule fitRCRT_loop_all_fail)
  then show ?thesis
    by (simp add: fitRCRT_MDList failure_kind_def del: fitRCRT_loop.simps)
qed

text \<open>
  C7. For a \<open>maxDiv\<close> that is neither \<open>None\<close>, nor an \<open>int\<close>, nor a list (a float, for one),
  \<open>fitRCRT\<close> raises a \<open>TypeError\<close>, which is an invalid-argument condition and not a fit
  failure, and calls the solver not once.
\<close>

theorem fitRCRT_invalid_type:
  "fitRCRT cf x y p0 (MDOther v) =
     (Inl (Exn TypeError
             [Lit ''Invalid type of '', TypeName (type_name v),
              Lit '' for maxDiv. Valid types: int, list of ints or None. Please refer to the documentation for usage instructions.'']
             None), [])
   \<and> (case fst (fitRCRT cf x y p0 (MDOther v)) of
         Inl e \<Rightarrow> is_invalid_argument e \<and> \<not> is_fit_failure e
       | Inr r \<Rightarrow> False)"
  by (simp add: fitRCRT_MDOther is_invalid_argument_def is_fit_failure_def)

theorem fitRCRT_invalid_type_witness:
  "fitRCRT converges_on_ten sample_x sample_y None (MDOther (OFloat (5 / 2))) =
     (Inl (Exn TypeError
             [Lit ''Invalid type of '', TypeName ''float'',
              Lit '' for maxDiv. Valid types: int, list of ints or None. Please refer to the documentation for usage instructions.'']
             None), [])"
  using fitRCRT_invalid_type [of converges_on_ten sample_x sample_y None "OFloat (5 / 2)"]
  by simp

text \<open>
  C9. With \<open>maxDiv\<close> absent, \<open>fitRCRT\<close> discards the caller's initial guess: the result and
  the solver calls are those of the call without a guess, and every exponential fit it
  makes (the one on the whole series and one per candidate) uses the default guess
  \<open>[1.0, -0.3, 0.0]\<close>.
\<close>

theorem fitRCRT_None_discards_p0:
  "fitRCRT cf x y (Some p0) MDNone = fitRCRT cf x y None MDNone
   \<and> list_all (\<lambda>c. cf_f c = Exponential \<longrightarrow> cf_p0 c = default_exponential_p0)
        (snd (fitRCRT cf x y (Some p0) MDNone))"
proof
  show "fitRCRT cf x y (Some p0) MDNone = fitRCRT cf x y None MDNone"
    by (simp add: fitRCRT_MDNone)
next
  have peaks_trace: "list_all (\<lambda>c. cf_f c = Exponential \<longrightarrow> cf_p0 c = default_exponential_p0)
      (snd (findMaxDivergencePeaks cf x (RawArgs y)))"
  proof -
    obtain r1 t1 where a: "fitExponential cf x y None = (r1, t1)"
      by (cases "fitExponential cf x y None")
    with fitExponential_trace [of cf x y None]
    have t1: "t1 = [exponential_call x y default_exponential_p0]"
      by (simp add: explicit_p0_def)
    obtain r2 t2 where b: "fitPolynomial cf x y None = (r2, t2)"
      by (cases "fitPolynomial cf x y None")
    with fitPolynomial_trace [of cf x y None]
    have t2: "t2 = [polynomial_call x y default_polynomial_p0]"
      by simp
    show ?thesis using a t1 b t2
      by (cases r1; cases r2)
         (simp_all add: exponential_call_def polynomial_call_def Let_def split: sum.splits)
  qed
  obtain rp tp where p: "findMaxDivergencePeaks cf x (RawArgs y) = (rp, tp)"
    by (cases "findMaxDivergencePeaks cf x (RawArgs y)")
  show "list_all (\<lambda>c. cf_f c = Exponential \<longrightarrow> cf_p0 c = default_exponential_p0)
        (snd (fitRCRT cf x y (Some p0) MDNone))"
  proof (cases rp)
    case (Inl e)
    with p peaks_trace show ?thesis by (simp add: fitRCRT_MDNone)
  next
    case (Inr peaks)
    obtain r t where l: "fitRCRT_loop cf x y default_exponential_p0 peaks peaks = (r, t)"
      by (cases "fitRCRT_loop cf x y default_exponential_p0 peaks peaks")
    with fitRCRT_loop_trace [of default_exponential_p0 cf x y peaks peaks]
    have "list_all (\<lambda>c. cf_f c = Exponential \<and> cf_p0 c = default_exponential_p0) t" by simp
    then have "list_all (\<lambda>c. cf_f c = Exponential \<longrightarrow> cf_p0 c = default_exponential_p0) t"
      by (simp add: list_all_iff)
    with p Inr l peaks_trace show ?thesis
      by (simp add: fitRCRT_MDNone fitRCRT_MDList explicit_p0_def)
  qed
qed

lemma diff_example_strict:
  "diffExpPoly [0, 1, 2, 3] [0, 0, 0] [0, 2, - 1] = Inr [0, 1, 0, 3]"
  by (simp add: diffExpPoly_def polynomial_def exponential_def fl_map_def fl_map2_def
      overflows64_def)

lemma find_peaks_example_strict: "find_peaks [0, 1, 0, 3] = [1]"
  by (simp add: find_peaks_def local_maxima_loop.simps look_ahead.simps Let_def)

theorem fitRCRT_None_discards_p0_witness:
  "fitRCRT fixed_fits [0, 1, 2, 3] [1, 1, 1, 1] (Some [5, - 2, 1]) MDNone
     = fitRCRT fixed_fits [0, 1, 2, 3] [1, 1, 1, 1] None MDNone
   \<and> list_all (\<lambda>c. cf_f c = Exponential \<longrightarrow> cf_p0 c = default_exponential_p0)
       (snd (fitRCRT fixed_fits [0, 1, 2, 3] [1, 1, 1, 1] (Some [5, - 2, 1]) MDNone))
   \<and> fitRCRT fixed_fits [0, 1, 2, 3] [1, 1, 1, 1] (Some [5, - 2, 1]) MDNone =
       (Inr (([0, 0, 0], [1, 1, 1]), 1),
        [exponential_call [0, 1, 2, 3] [1, 1, 1, 1] default_exponential_p0,
         polynomial_call [0, 1, 2, 3] [1, 1, 1, 1] default_polynomial_p0,
         candidate_call [0, 1, 2, 3] [1, 1, 1, 1] default_exponential_p0 1])"
proof -
  have e: "fitRCRT fixed_fits [0, 1, 2, 3] [1, 1, 1, 1] (Some [5, - 2, 1]) MDNone =
       (Inr (([0, 0, 0], [1, 1, 1]), 1),
        [exponential_call [0, 1, 2, 3] [1, 1, 1, 1] default_exponential_p0,
         polynomial_call [0, 1, 2, 3] [1, 1, 1, 1] default_polynomial_p0,
         candidate_call [0, 1, 2, 3] [1, 1, 1, 1] default_exponential_p0 1])"
    by (simp add: fitRCRT_MDNone fitRCRT_MDList fitRCRT_MDInt fitExponential_def
        fitPolynomial_def fit_attempt_def run_curve_fit_def fixed_fits_def covToStdDev_def
        np_sqrt_def exponential_call_def polynomial_call_def candidate_call_def
        diff_example_strict find_peaks_example_strict explicit_p0_def Let_def)
  note t = fitRCRT_None_discards_p0 [of fixed_fits "[0, 1, 2, 3]" "[1, 1, 1, 1]" "[5, - 2, 1]"]
  from t e show ?thesis by blast
qed

section \<open>Properties of the divergence analyzer\<close>

lemma look_ahead_unfold_step:
  "i_ahead < length x - 1 \<Longrightarrow> x ! i_ahead = x ! i \<Longrightarrow>
     look_ahead x i i_ahead = look_ahead x i (i_ahead + 1)"
  using look_ahead.simps [of x i i_ahead] by simp

lemma look_ahead_unfold_stop:
  "\<not> (i_ahead < length x - 1 \<and> x ! i_ahead = x ! i) \<Longrightarrow> look_ahead x i i_ahead = i_ahead"
  by (subst look_ahead.simps) auto

lemma look_ahead_le: "i_ahead \<le> length x - 1 \<Longrightarrow> look_ahead x i i_ahead \<le> length x - 1"
proof (induction x i i_ahead rule: look_ahead.induct)
  case (1 x i i_ahead)
  show ?case
  proof (cases "i_ahead < length x - 1 \<and> x ! i_ahead = x ! i")
    case True
    with 1 show ?thesis by (simp add: look_ahead_unfold_step)
  next
    case False
    with 1 show ?thesis by (simp add: look_ahead_unfold_stop)
  qed
qed

lemma look_ahead_equal:
  "i_ahead \<le> k \<Longrightarrow> k < look_ahead x i i_ahead \<Longrightarrow> x ! k = x ! i"
proof (induction x i i_ahead rule: look_ahead.induct)
  case (1 x i i_ahead)
  show ?case
  proof (cases "i_ahead < length x - 1 \<and> x ! i_ahead = x ! i")
    case True
    show ?thesis
    proof (cases "k = i_ahead")
      case True
      with \<open>i_ahead < length x - 1 \<and> x ! i_ahead = x ! i\<close> show ?thesis by simp
    next
      case False
      with "1.prems" have "i_ahead + 1 \<le> k" by simp
      moreover from True "1.prems" have "k < look_ahead x i (i_ahead + 1)"
        by (simp add: look_ahead_unfold_step)
      ultimately show ?thesis using "1.IH" True by blast
    qed
  next
    case False
    with "1.prems" show ?thesis by (simp add: look_ahead_unfold_stop)
  qed
qed

lemma look_ahead_stop:
  "look_ahead x i i_ahead < length x - 1 \<Longrightarrow> x ! look_ahead x i i_ahead \<noteq> x ! i"
proof (induction x i i_ahead rule: look_ahead.induct)
  case (1 x i i_ahead)
  show ?case
  proof (cases "i_ahead < length x - 1 \<and> x ! i_ahead = x ! i")
    case True
    with 1 show ?thesis by (simp add: look_ahead_unfold_step)
  next
    case False
    with "1.prems" show ?thesis by (auto simp add: look_ahead_unfold_stop)
  qed
qed

lemma flat_peak_iff:
  "flat_peak d l r \<longleftrightarrow>
     1 \<le> l \<and> l \<le> r \<and> r + 1 < length d \<and> d ! (l - 1) < d ! l
     \<and> (\<forall>k. l \<le> k \<and> k \<le> r \<longrightarrow> d ! k = d ! l) \<and> d ! (r + 1) < d ! l"
proof -
  have "list_all (\<lambda>k. d ! k = d ! l) [l..<r + 1] \<longleftrightarrow> (\<forall>k\<in>{l..<r + 1}. d ! k = d ! l)"
    by (simp only: list_all_iff set_upt)
  also have "\<dots> \<longleftrightarrow> (\<forall>k. l \<le> k \<and> k \<le> r \<longrightarrow> d ! k = d ! l)"
  proof
    assume a: "\<forall>k\<in>{l..<r + 1}. d ! k = d ! l"
    show "\<forall>k. l \<le> k \<and> k \<le> r \<longrightarrow> d ! k = d ! l"
    proof (intro allI impI)
      fix k
      assume "l \<le> k \<and> k \<le> r"
      then have "k \<in> {l..<r + 1}" by simp
      with a show "d ! k = d ! l" by blast
    qed
  next
    assume a: "\<forall>k. l \<le> k \<and> k \<le> r \<longrightarrow> d ! k = d ! l"
    show "\<forall>k\<in>{l..<r + 1}. d ! k = d ! l"
    proof
      fix k
      assume "k \<in> {l..<r + 1}"
      then have "l \<le> k \<and> k \<le> r" by simp
      with a show "d ! k = d ! l" by blast
    qed
  qed
  finally show ?thesis unfolding flat_peak_def by blast
qed

lemma flat_peakD:
  assumes "flat_peak d l r"
  shows "1 \<le> l" and "l \<le> r" and "r + 1 < length d" and "d ! (l - 1) < d ! l"
    and "d ! (r + 1) < d ! l" and "\<And>k. l \<le> k \<Longrightarrow> k \<le> r \<Longrightarrow> d ! k = d ! l"
  using assms unfolding flat_peak_iff by blast+

lemma flat_peakI:
  assumes "1 \<le> l" and "l \<le> r" and "r + 1 < length d" and "d ! (l - 1) < d ! l"
    and "d ! (r + 1) < d ! l" and "\<And>k. l \<le> k \<Longrightarrow> k \<le> r \<Longrightarrow> d ! k = d ! l"
  shows "flat_peak d l r"
  using assms unfolding flat_peak_iff by blast

lemma loop_stop: "\<not> i < length x - 1 \<Longrightarrow> local_maxima_loop x i = []"
  by (subst local_maxima_loop.simps) simp

lemma loop_skip:
  "i < length x - 1 \<Longrightarrow> \<not> x ! (i - 1) < x ! i \<Longrightarrow>
     local_maxima_loop x i = local_maxima_loop x (i + 1)"
  by (subst local_maxima_loop.simps) simp

lemma loop_peak:
  "i < length x - 1 \<Longrightarrow> x ! (i - 1) < x ! i \<Longrightarrow> x ! look_ahead x i (i + 1) < x ! i \<Longrightarrow>
     local_maxima_loop x i =
       (i + (look_ahead x i (i + 1) - 1)) div 2 # local_maxima_loop x (look_ahead x i (i + 1) + 1)"
  by (subst local_maxima_loop.simps) (simp add: Let_def)

lemma loop_no_peak:
  "i < length x - 1 \<Longrightarrow> x ! (i - 1) < x ! i \<Longrightarrow> \<not> x ! look_ahead x i (i + 1) < x ! i \<Longrightarrow>
     local_maxima_loop x i = local_maxima_loop x (i + 1)"
  by (subst local_maxima_loop.simps) (simp add: Let_def)

lemma peaks_fromE:
  assumes "m \<in> peaks_from x i"
  obtains l r where "m = (l + r) div 2" and "i \<le> l" and "flat_peak x l r"
  using assms unfolding peaks_from_def by blast

lemma peaks_fromI: "i \<le> l \<Longrightarrow> flat_peak x l r \<Longrightarrow> (l + r) div 2 \<in> peaks_from x i"
  unfolding peaks_from_def by blast

lemma peaks_from_shift:
  assumes "\<And>l r. i \<le> l \<Longrightarrow> flat_peak x l r \<Longrightarrow> j \<le> l" and "i \<le> j"
  shows "peaks_from x i = peaks_from x j"
proof (intro set_eqI iffI)
  fix m
  assume "m \<in> peaks_from x i"
  then obtain l r where m: "m = (l + r) div 2" and il: "i \<le> l" and fp: "flat_peak x l r"
    by (rule peaks_fromE)
  from assms(1) [OF il fp] fp show "m \<in> peaks_from x j"
    unfolding m by (rule peaks_fromI)
next
  fix m
  assume "m \<in> peaks_from x j"
  then obtain l r where m: "m = (l + r) div 2" and jl: "j \<le> l" and fp: "flat_peak x l r"
    by (rule peaks_fromE)
  from assms(2) jl have "i \<le> l" by simp
  then show "m \<in> peaks_from x i"
    unfolding m using fp by (rule peaks_fromI)
qed

lemma peaks_from_stop:
  assumes "\<not> i < length x - 1"
  shows "peaks_from x i = {}"
proof -
  have False if "m \<in> peaks_from x i" for m
  proof -
    from that obtain l r where il: "i \<le> l" and fp: "flat_peak x l r"
      by (rule peaks_fromE)
    from flat_peakD(2,3) [OF fp] il assms show False by simp
  qed
  then show ?thesis by blast
qed

lemma peaks_from_skip:
  assumes "\<not> x ! (i - 1) < x ! i"
  shows "peaks_from x i = peaks_from x (i + 1)"
proof (rule peaks_from_shift)
  fix l r
  assume il: "i \<le> l" and fp: "flat_peak x l r"
  from flat_peakD(4) [OF fp] assms have "l \<noteq> i" by blast
  with il show "i + 1 \<le> l" by simp
qed simp

lemma flat_peak_right_edge:
  assumes "flat_peak x i r"
  shows "look_ahead x i (i + 1) = r + 1"
proof -
  let ?j = "look_ahead x i (i + 1)"
  note ir = flat_peakD(2) [OF assms] and rn = flat_peakD(3) [OF assms]
    and lt = flat_peakD(5) [OF assms] and eq = flat_peakD(6) [OF assms]
  have ge: "i + 1 \<le> ?j" by (rule look_ahead_ge)
  have "\<not> r + 1 < ?j"
  proof
    assume a: "r + 1 < ?j"
    from ir have "i + 1 \<le> r + 1" by simp
    then have "x ! (r + 1) = x ! i" using a by (rule look_ahead_equal)
    with lt show False by simp
  qed
  moreover have "\<not> ?j < r + 1"
  proof
    assume a: "?j < r + 1"
    with rn have "?j < length x - 1" by simp
    then have ne: "x ! ?j \<noteq> x ! i" by (rule look_ahead_stop)
    from ge have "i \<le> ?j" by simp
    moreover from a have "?j \<le> r" by simp
    ultimately have "x ! ?j = x ! i" by (rule eq)
    with ne show False by blast
  qed
  ultimately show ?thesis by simp
qed

lemma peaks_from_no_peak:
  assumes "\<not> x ! look_ahead x i (i + 1) < x ! i"
  shows "peaks_from x i = peaks_from x (i + 1)"
proof (rule peaks_from_shift)
  fix l r
  assume il: "i \<le> l" and fp: "flat_peak x l r"
  have "l \<noteq> i"
  proof
    assume "l = i"
    with fp have fpi: "flat_peak x i r" by simp
    then have "look_ahead x i (i + 1) = r + 1" by (rule flat_peak_right_edge)
    with flat_peakD(5) [OF fpi] assms show False by simp
  qed
  with il show "i + 1 \<le> l" by simp
qed simp

lemma peaks_from_peak:
  assumes "1 \<le> i" "i < length x - 1" "x ! (i - 1) < x ! i" "x ! look_ahead x i (i + 1) < x ! i"
  shows "peaks_from x i =
     insert ((i + (look_ahead x i (i + 1) - 1)) div 2) (peaks_from x (look_ahead x i (i + 1) + 1))"
proof -
  let ?j = "look_ahead x i (i + 1)"
  have ge: "i + 1 \<le> ?j" by (rule look_ahead_ge)
  from assms(2) have "i + 1 \<le> length x - 1" by simp
  then have "?j \<le> length x - 1" by (rule look_ahead_le)
  with assms(2) have jn: "?j - 1 + 1 < length x" using ge by simp
  have eq: "x ! k = x ! i" if "i \<le> k" "k < ?j" for k
  proof (cases "k = i")
    case True
    then show ?thesis by simp
  next
    case False
    with that(1) have "i + 1 \<le> k" by simp
    then show ?thesis using that(2) by (rule look_ahead_equal)
  qed
  have own: "flat_peak x i (?j - 1)"
  proof (rule flat_peakI)
    show "1 \<le> i" by (rule assms(1))
    show "i \<le> ?j - 1" using ge by simp
    show "?j - 1 + 1 < length x" by (rule jn)
    show "x ! (i - 1) < x ! i" by (rule assms(3))
    show "x ! (?j - 1 + 1) < x ! i" using assms(4) ge by simp
    show "x ! k = x ! i" if "i \<le> k" "k \<le> ?j - 1" for k
    proof -
      from that(2) ge have "k < ?j" by simp
      with that(1) show ?thesis by (rule eq)
    qed
  qed
  have later: "?j + 1 \<le> l" if il: "i < l" and fp: "flat_peak x l r" for l r
  proof (rule ccontr)
    assume "\<not> ?j + 1 \<le> l"
    then have lj: "l \<le> ?j" by simp
    note up = flat_peakD(4) [OF fp]
    from il have "i \<le> l - 1" by simp
    moreover from il lj have "l - 1 < ?j" by simp
    ultimately have prev: "x ! (l - 1) = x ! i" by (rule eq)
    show False
    proof (cases "l = ?j")
      case True
      with up prev assms(4) show False by simp
    next
      case False
      with lj have "l < ?j" by simp
      with il have "x ! l = x ! i" by (intro eq) simp_all
      with up prev show False by simp
    qed
  qed
  show ?thesis
  proof (intro set_eqI iffI)
    fix m
    assume "m \<in> peaks_from x i"
    then obtain l r where m: "m = (l + r) div 2" and il: "i \<le> l" and fp: "flat_peak x l r"
      by (rule peaks_fromE)
    show "m \<in> insert ((i + (?j - 1)) div 2) (peaks_from x (?j + 1))"
    proof (cases "l = i")
      case True
      with fp have "flat_peak x i r" by simp
      then have "?j = r + 1" by (rule flat_peak_right_edge)
      with m True show ?thesis by simp
    next
      case False
      with il have "i < l" by simp
      then have "?j + 1 \<le> l" using fp by (rule later)
      then have "(l + r) div 2 \<in> peaks_from x (?j + 1)" using fp by (rule peaks_fromI)
      with m show ?thesis by simp
    qed
  next
    fix m
    assume "m \<in> insert ((i + (?j - 1)) div 2) (peaks_from x (?j + 1))"
    then consider "m = (i + (?j - 1)) div 2" | "m \<in> peaks_from x (?j + 1)" by blast
    then show "m \<in> peaks_from x i"
    proof cases
      case 1
      have "(i + (?j - 1)) div 2 \<in> peaks_from x i" using own by (intro peaks_fromI) simp_all
      with 1 show ?thesis by simp
    next
      case 2
      then obtain l r where m: "m = (l + r) div 2" and jl: "?j + 1 \<le> l" and fp: "flat_peak x l r"
        by (rule peaks_fromE)
      from jl ge have "i \<le> l" by simp
      then show ?thesis unfolding m using fp by (rule peaks_fromI)
    qed
  qed
qed

lemma peaks_from_lower:
  assumes "m \<in> peaks_from x i"
  shows "i \<le> m"
proof -
  from assms obtain l r where m: "m = (l + r) div 2" and il: "i \<le> l" and fp: "flat_peak x l r"
    by (rule peaks_fromE)
  from flat_peakD(2) [OF fp] il show ?thesis unfolding m by simp
qed

text \<open>The scan from \<open>i\<close> on returns, in increasing order, the midpoints of the flat peaks
  that start at \<open>i\<close> or later.\<close>

lemma local_maxima_loop_correct:
  "1 \<le> i \<Longrightarrow> set (local_maxima_loop x i) = peaks_from x i \<and> sorted_wrt (<) (local_maxima_loop x i)"
proof (induction "length x - i" arbitrary: i rule: less_induct)
  case less
  show ?case
  proof (cases "i < length x - 1")
    case False
    then show ?thesis by (simp add: loop_stop peaks_from_stop)
  next
    case inside: True
    show ?thesis
    proof (cases "x ! (i - 1) < x ! i")
      case False
      from inside have "length x - (i + 1) < length x - i" by simp
      from less.hyps [OF this] have "set (local_maxima_loop x (i + 1)) = peaks_from x (i + 1)
          \<and> sorted_wrt (<) (local_maxima_loop x (i + 1))" by simp
      then show ?thesis
        unfolding loop_skip [OF inside False] peaks_from_skip [OF False] .
    next
      case rising: True
      let ?j = "look_ahead x i (i + 1)"
      show ?thesis
      proof (cases "x ! ?j < x ! i")
        case False
        from inside have "length x - (i + 1) < length x - i" by simp
        from less.hyps [OF this] have "set (local_maxima_loop x (i + 1)) = peaks_from x (i + 1)
            \<and> sorted_wrt (<) (local_maxima_loop x (i + 1))" by simp
        then show ?thesis
          unfolding loop_no_peak [OF inside rising False] peaks_from_no_peak [OF False] .
      next
        case True
        have ge: "i + 1 \<le> ?j" by (rule look_ahead_ge)
        with inside have "length x - (?j + 1) < length x - i" by simp
        from less.hyps [OF this] have ih: "set (local_maxima_loop x (?j + 1)) = peaks_from x (?j + 1)"
          "sorted_wrt (<) (local_maxima_loop x (?j + 1))" by simp_all
        have "(i + (?j - 1)) div 2 < m" if "m \<in> peaks_from x (?j + 1)" for m
        proof -
          from that have "?j + 1 \<le> m" by (rule peaks_from_lower)
          with ge show ?thesis by simp
        qed
        with ih have "sorted_wrt (<) ((i + (?j - 1)) div 2 # local_maxima_loop x (?j + 1))"
          by simp
        moreover have "set ((i + (?j - 1)) div 2 # local_maxima_loop x (?j + 1)) = peaks_from x i"
          using ih(1) peaks_from_peak [OF less.prems inside rising True] by simp
        ultimately show ?thesis
          unfolding loop_peak [OF inside rising True] by blast
      qed
    qed
  qed
qed

lemma peaks_from_1: "peaks_from d 1 = flat_peak_midpoints d"
proof -
  have "1 \<le> l" if "flat_peak d l r" for l r
    using that by (rule flat_peakD(1))
  then show ?thesis unfolding peaks_from_def flat_peak_midpoints_def by blast
qed

lemma find_peaks_correct:
  "set (find_peaks d) = flat_peak_midpoints d \<and> sorted_wrt (<) (find_peaks d)"
proof -
  have "(1::nat) \<le> 1" by simp
  from local_maxima_loop_correct [OF this, of d] show ?thesis
    unfolding find_peaks_def peaks_from_1 .
qed

lemma flat_peak_single:
  assumes "\<not> has_adjacent_equal d" and "flat_peak d l r"
  shows "l = r"
proof (rule ccontr)
  assume "l \<noteq> r"
  with flat_peakD(2) [OF assms(2)] have lr: "l < r" by simp
  then have "d ! (l + 1) = d ! l" by (intro flat_peakD(6) [OF assms(2)]) simp_all
  moreover from lr flat_peakD(3) [OF assms(2)] have "l < length d - 1" by simp
  ultimately have "has_adjacent_equal d"
    unfolding has_adjacent_equal_def list_ex_iff by (intro bexI [of _ l]) simp_all
  with assms(1) show False by blast
qed

lemma flat_peak_self:
  "flat_peak d i i \<longleftrightarrow> 1 \<le> i \<and> i + 1 < length d \<and> d ! (i - 1) < d ! i \<and> d ! (i + 1) < d ! i"
proof -
  have "(\<forall>k. i \<le> k \<and> k \<le> i \<longrightarrow> d ! k = d ! i)"
  proof (intro allI impI)
    fix k
    assume "i \<le> k \<and> k \<le> i"
    then have "k = i" by simp
    then show "d ! k = d ! i" by simp
  qed
  then show ?thesis unfolding flat_peak_iff by blast
qed

lemma strict_interior_maxima_iff:
  "i \<in> set (strict_interior_maxima d) \<longleftrightarrow> flat_peak d i i"
proof -
  have "i \<in> set (strict_interior_maxima d) \<longleftrightarrow>
      (1 \<le> i \<and> i < length d - 1) \<and> d ! (i - 1) < d ! i \<and> d ! (i + 1) < d ! i"
    unfolding strict_interior_maxima_def by simp
  moreover have "(1 \<le> i \<and> i < length d - 1) \<longleftrightarrow> (1 \<le> i \<and> i + 1 < length d)"
    by linarith
  ultimately show ?thesis unfolding flat_peak_self by blast
qed

lemma midpoints_strict:
  assumes "\<not> has_adjacent_equal d"
  shows "flat_peak_midpoints d = set (strict_interior_maxima d)"
proof (intro set_eqI iffI)
  fix m
  assume "m \<in> flat_peak_midpoints d"
  then obtain l r where m: "m = (l + r) div 2" and fp: "flat_peak d l r"
    unfolding flat_peak_midpoints_def by blast
  from flat_peak_single [OF assms fp] have "l = r" .
  with m fp have "m = l" "flat_peak d m m" by simp_all
  then show "m \<in> set (strict_interior_maxima d)" by (simp add: strict_interior_maxima_iff)
next
  fix m
  assume "m \<in> set (strict_interior_maxima d)"
  then have "flat_peak d m m" by (simp add: strict_interior_maxima_iff)
  moreover have "m = (m + m) div 2" by simp
  ultimately show "m \<in> flat_peak_midpoints d" unfolding flat_peak_midpoints_def by blast
qed

lemma monotonic_no_flat_peak:
  assumes "sorted_wrt (<) d \<or> sorted_wrt (>) d"
  shows "flat_peak_midpoints d = {}"
proof -
  have False if fp: "flat_peak d l r" for l r
  proof -
    note D = flat_peakD [OF fp]
    from D(2) have "d ! r = d ! l" by (intro D(6)) simp_all
    from assms show False
    proof
      assume inc: "sorted_wrt (<) d"
      from D(3) have "d ! r < d ! (r + 1)"
        by (intro sorted_wrt_nth_less [OF inc]) simp_all
      with D(5) \<open>d ! r = d ! l\<close> show False by simp
    next
      assume dec: "sorted_wrt (>) d"
      from D(1,2,3) have "d ! (l - 1) > d ! l"
        by (intro sorted_wrt_nth_less [OF dec]) simp_all
      with D(4) show False by simp
    qed
  qed
  then show ?thesis unfolding flat_peak_midpoints_def by blast
qed

lemma diff_example:
  "diffExpPoly [0, 1 / 2, 3 / 2, 2] [0, 0, 0] [0, 2, - 1] = Inr [0, 3 / 4, 3 / 4, 0]"
  by (simp add: diffExpPoly_def polynomial_def exponential_def fl_map_def fl_map2_def
      overflows64_def)

lemma find_peaks_example: "find_peaks [0, 3 / 4, 3 / 4, 0] = [1]"
  by (simp add: find_peaks_def local_maxima_loop.simps look_ahead.simps Let_def)

text \<open>The evaluation of the difference curve raises when an operation overflows: here
  \<open>exp(1000)\<close>, on \<open>x = [-1000, 0, 1]\<close> with the decay rate \<open>-1\<close>.\<close>

lemma exp_1000_overflows: "overflows64 (exp 1000)"
proof -
  have "(5::real) \<le> 1 + 2 + 2\<^sup>2 / 2" by simp
  also have "\<dots> \<le> exp 2" by (rule exp_lower_Taylor_quadratic) simp
  finally have "(5::real) ^ 500 \<le> exp 2 ^ 500" by (intro power_mono) simp_all
  moreover have "exp 2 ^ 500 = exp (1000::real)"
    using exp_of_nat_mult [of 500 "2::real"] by simp
  moreover have "(2::real) ^ 1024 - 2 ^ 970 \<le> 5 ^ 500" by simp
  ultimately have "(2::real) ^ 1024 - 2 ^ 970 \<le> exp 1000" by linarith
  then show ?thesis by (simp add: overflows64_def)
qed

lemma diff_example_overflow:
  "diffExpPoly [- 1000, 0, 1] [1, - 1, 0] [0] =
     Inl (Exn RuntimeWarning [Lit ''overflow encountered in '', Lit ''exp''] None)"
proof -
  have r: "round64 1000 = 1000" by (simp add: round64_eval)
  show ?thesis
    by (simp add: diffExpPoly_def exponential_def fl_map_def not_overflows64_small r
        exp_1000_overflows warn_def)
qed

text \<open>
  C3, as the code has it. With the fitted parameters given, and when the float64 evaluation
  of the difference curve \<open>|exponential - polynomial|\<close> over \<open>x\<close> does not raise,
  \<open>findMaxDivergencePeaks\<close> returns exactly the interior local maxima of the curve, where a
  local maximum is a run of equal samples with a lower sample on each side, reported once,
  at the middle index of the run (rounded down); no index is returned twice, and the indices
  are in descending order of the value of the difference curve. When no two adjacent samples
  of the curve are equal, these are exactly the interior indices strictly greater than both
  immediate neighbours. On a strictly monotonic curve the result is the empty list, not an
  error. When the evaluation of the curve raises (an overflow, a parameter vector of the
  wrong length), the function raises the same exception.
\<close>

theorem findMaxDivergencePeaks_fitted_peaks:
  "(diffExpPoly x expParams polyParams = Inr d \<longrightarrow>
      (\<exists>peaks.
          findMaxDivergencePeaks cf x (FittedArgs (expParams, expStdDev) (polyParams, polyStdDev))
            = (Inr peaks, [])
        \<and> set peaks = int ` flat_peak_midpoints d
        \<and> distinct peaks
        \<and> sorted_wrt (\<lambda>i j. d ! nat j \<le> d ! nat i) peaks
        \<and> (\<not> has_adjacent_equal d \<longrightarrow> set peaks = int ` set (strict_interior_maxima d))
        \<and> (sorted_wrt (<) d \<or> sorted_wrt (>) d \<longrightarrow> peaks = [])))
   \<and> (diffExpPoly x expParams polyParams = Inl e \<longrightarrow>
        findMaxDivergencePeaks cf x (FittedArgs (expParams, expStdDev) (polyParams, polyStdDev))
          = (Inl e, []))"
proof (intro conjI impI)
  assume d: "diffExpPoly x expParams polyParams = Inr d"
  define peaks where "peaks = sort_key (\<lambda>i. - (d ! nat i)) (map int (find_peaks d))"
  have res: "findMaxDivergencePeaks cf x (FittedArgs (expParams, expStdDev) (polyParams, polyStdDev))
          = (Inr peaks, [])"
    using d by (simp add: peaks_def Let_def)
  have s: "set peaks = int ` flat_peak_midpoints d"
    by (simp add: peaks_def find_peaks_correct)
  have "distinct (find_peaks d)"
    using find_peaks_correct [of d] by (simp add: strict_sorted_iff)
  then have dist: "distinct peaks"
    by (simp add: peaks_def distinct_map)
  have "sorted (map (\<lambda>i. - (d ! nat i)) peaks)"
    unfolding peaks_def by (rule sorted_sort_key)
  then have srt: "sorted_wrt (\<lambda>i j. d ! nat j \<le> d ! nat i) peaks"
    by (simp add: sorted_map)
  have strict: "set peaks = int ` set (strict_interior_maxima d)" if "\<not> has_adjacent_equal d"
    using s midpoints_strict [OF that] by simp
  have mono: "peaks = []" if "sorted_wrt (<) d \<or> sorted_wrt (>) d"
    using s monotonic_no_flat_peak [OF that] by simp
  from res s dist srt strict mono
  show "\<exists>peaks.
          findMaxDivergencePeaks cf x (FittedArgs (expParams, expStdDev) (polyParams, polyStdDev))
            = (Inr peaks, [])
        \<and> set peaks = int ` flat_peak_midpoints d
        \<and> distinct peaks
        \<and> sorted_wrt (\<lambda>i j. d ! nat j \<le> d ! nat i) peaks
        \<and> (\<not> has_adjacent_equal d \<longrightarrow> set peaks = int ` set (strict_interior_maxima d))
        \<and> (sorted_wrt (<) d \<or> sorted_wrt (>) d \<longrightarrow> peaks = [])"
    by blast
next
  assume "diffExpPoly x expParams polyParams = Inl e"
  then show "findMaxDivergencePeaks cf x
      (FittedArgs (expParams, expStdDev) (polyParams, polyStdDev)) = (Inl e, [])"
    by simp
qed

theorem findMaxDivergencePeaks_fitted_peaks_witness:
  "diffExpPoly [0, 1, 2, 3] [0, 0, 0] [0, 2, - 1] = Inr [0, 1, 0, 3]
   \<and> findMaxDivergencePeaks never_converges [0, 1, 2, 3]
        (FittedArgs ([0, 0, 0], [1, 1, 1]) ([0, 2, - 1], [1, 1, 1])) = (Inr [1], [])
   \<and> int ` flat_peak_midpoints [0, 1, 0, 3] = {1}
   \<and> int ` set (strict_interior_maxima [0, 1, 0, 3]) = {1}
   \<and> findMaxDivergencePeaks never_converges [- 1000, 0, 1]
        (FittedArgs ([1, - 1, 0], [1, 1, 1]) ([0], [1])) =
       (Inl (Exn RuntimeWarning [Lit ''overflow encountered in '', Lit ''exp''] None), [])"
proof -
  have e: "findMaxDivergencePeaks never_converges [0, 1, 2, 3]
        (FittedArgs ([0, 0, 0], [1, 1, 1]) ([0, 2, - 1], [1, 1, 1])) = (Inr [1], [])"
    by (simp add: diff_example_strict find_peaks_example_strict)
  have n: "\<not> has_adjacent_equal [0, 1, 0, 3]"
    by (simp add: has_adjacent_equal_def upt_rec)
  from findMaxDivergencePeaks_fitted_peaks [of "[0, 1, 2, 3]" "[0, 0, 0]" "[0, 2, - 1]"
      "[0, 1, 0, 3]" never_converges "[1, 1, 1]" "[1, 1, 1]"] diff_example_strict
  obtain peaks where b: "findMaxDivergencePeaks never_converges [0, 1, 2, 3]
        (FittedArgs ([0, 0, 0], [1, 1, 1]) ([0, 2, - 1], [1, 1, 1])) = (Inr peaks, [])"
    and c: "set peaks = int ` flat_peak_midpoints [0, 1, 0, 3]"
    and s: "\<not> has_adjacent_equal [0, 1, 0, 3] \<longrightarrow>
        set peaks = int ` set (strict_interior_maxima [0, 1, 0, 3])"
    by blast
  from b e have p: "peaks = [1]" by simp
  have o: "findMaxDivergencePeaks never_converges [- 1000, 0, 1]
        (FittedArgs ([1, - 1, 0], [1, 1, 1]) ([0], [1])) =
       (Inl (Exn RuntimeWarning [Lit ''overflow encountered in '', Lit ''exp''] None), [])"
    using findMaxDivergencePeaks_fitted_peaks [of "[- 1000, 0, 1]" "[1, - 1, 0]" "[0]" "[]"
        never_converges "[1, 1, 1]" "[1]"
        "Exn RuntimeWarning [Lit ''overflow encountered in '', Lit ''exp''] None"]
      diff_example_overflow
    by blast
  from c s n show ?thesis unfolding p using e o diff_example_strict by simp
qed

text \<open>
  C3, as stated, fails on a difference curve with a flat peak. On \<open>x = [0, 0.5, 1.5, 2]\<close>
  with the exponential \<open>0\<close> and the polynomial \<open>2x - x^2\<close> the curve is
  \<open>[0, 0.75, 0.75, 0]\<close>: no interior index is strictly greater than both neighbours, and
  the function returns the index 1, whose right neighbour is equal to it.
\<close>

theorem findMaxDivergencePeaks_plateau_counterexample:
  "fst (findMaxDivergencePeaks never_converges [0, 1 / 2, 3 / 2, 2]
          (FittedArgs ([0, 0, 0], [0, 0, 0]) ([0, 2, - 1], [0, 0, 0]))) = Inr [1]
   \<and> diffExpPoly [0, 1 / 2, 3 / 2, 2] [0, 0, 0] [0, 2, - 1] = Inr [0, 3 / 4, 3 / 4, 0]
   \<and> strict_interior_maxima [0, 3 / 4, 3 / 4, 0] = []
   \<and> \<not> [0, 3 / 4, 3 / 4, 0 :: real] ! 2 < [0, 3 / 4, 3 / 4, 0] ! 1"
  by (simp add: diff_example find_peaks_example strict_interior_maxima_def upt_rec)

text \<open>
  C10. With the fitted parameters given, the result of \<open>findMaxDivergencePeaks\<close> depends on
  \<open>x\<close> and on the two parameter vectors only: changing the standard deviations (or the
  solver) changes nothing.
\<close>

theorem findMaxDivergencePeaks_ignores_std_devs:
  "findMaxDivergencePeaks cf x (FittedArgs (expParams, expStdDev) (polyParams, polyStdDev)) =
   findMaxDivergencePeaks cf' x (FittedArgs (expParams, expStdDev') (polyParams, polyStdDev'))"
  by simp

theorem findMaxDivergencePeaks_ignores_std_devs_witness:
  "findMaxDivergencePeaks never_converges [0, 1, 2, 3]
      (FittedArgs ([0, 0, 0], [1, 1, 1]) ([0, 2, - 1], [1, 1, 1]))
   = findMaxDivergencePeaks fixed_fits [0, 1, 2, 3]
      (FittedArgs ([0, 0, 0], [7, 8, 9]) ([0, 2, - 1], [4, 5, 6]))"
  using findMaxDivergencePeaks_ignores_std_devs [of never_converges "[0, 1, 2, 3]" "[0, 0, 0]"
      "[1, 1, 1]" "[0, 2, - 1]" "[1, 1, 1]" fixed_fits "[7, 8, 9]" "[4, 5, 6]"]
  by simp

end
